theory Spec2Isabelle
  imports Complex_Main
begin

section \<open>JavaScript numbers\<close>

text \<open>
  The plugin computes with JavaScript numbers. They are modelled as the real numbers
  extended by the two infinities and NaN, so that division by zero and its consequences
  are values of the model. Arithmetic on finite numbers is exact (no rounding), large
  results do not overflow to an infinity, and zero carries no sign: the divisors of
  \<open>generateTooltipDashHTML\<close> are sums that start from \<open>+0\<close> and differences of
  such sums, which are never \<open>-0\<close>.
\<close>

datatype jsnum = Num real | PInf | NInf | NaN

fun js_neg :: "jsnum \<Rightarrow> jsnum" where
  "js_neg (Num a) = Num (- a)"
| "js_neg PInf = NInf"
| "js_neg NInf = PInf"
| "js_neg NaN = NaN"

fun js_add :: "jsnum \<Rightarrow> jsnum \<Rightarrow> jsnum" where
  "js_add (Num a) (Num b) = Num (a + b)"
| "js_add NaN _ = NaN"
| "js_add _ NaN = NaN"
| "js_add PInf NInf = NaN"
| "js_add NInf PInf = NaN"
| "js_add PInf _ = PInf"
| "js_add _ PInf = PInf"
| "js_add NInf _ = NInf"
| "js_add _ NInf = NInf"

definition js_sub :: "jsnum \<Rightarrow> jsnum \<Rightarrow> jsnum" where
  "js_sub a b = js_add a (js_neg b)"

fun js_mul :: "jsnum \<Rightarrow> jsnum \<Rightarrow> jsnum" where
  "js_mul (Num a) (Num b) = Num (a * b)"
| "js_mul NaN _ = NaN"
| "js_mul _ NaN = NaN"
| "js_mul PInf (Num b) = (if b = 0 then NaN else if 0 < b then PInf else NInf)"
| "js_mul NInf (Num b) = (if b = 0 then NaN else if 0 < b then NInf else PInf)"
| "js_mul (Num a) PInf = (if a = 0 then NaN else if 0 < a then PInf else NInf)"
| "js_mul (Num a) NInf = (if a = 0 then NaN else if 0 < a then NInf else PInf)"
| "js_mul PInf PInf = PInf"
| "js_mul NInf NInf = PInf"
| "js_mul PInf NInf = NInf"
| "js_mul NInf PInf = NInf"

fun js_div :: "jsnum \<Rightarrow> jsnum \<Rightarrow> jsnum" where
  "js_div (Num a) (Num b) =
     (if b = 0 then (if a = 0 then NaN else if 0 < a then PInf else NInf)
      else Num (a / b))"
| "js_div NaN _ = NaN"
| "js_div _ NaN = NaN"
| "js_div (Num a) PInf = Num 0"
| "js_div (Num a) NInf = Num 0"
| "js_div PInf (Num b) = (if 0 \<le> b then PInf else NInf)"
| "js_div NInf (Num b) = (if 0 \<le> b then NInf else PInf)"
| "js_div PInf PInf = NaN"
| "js_div PInf NInf = NaN"
| "js_div NInf PInf = NaN"
| "js_div NInf NInf = NaN"

text \<open>\<open>Math.floor\<close>: the infinities and NaN are returned as they are.\<close>

fun js_floor :: "jsnum \<Rightarrow> jsnum" where
  "js_floor (Num a) = Num (of_int \<lfloor>a\<rfloor>)"
| "js_floor PInf = PInf"
| "js_floor NInf = NInf"
| "js_floor NaN = NaN"

text \<open>The comparison \<open>a < b\<close>: false as soon as one side is NaN.\<close>

fun js_lt :: "jsnum \<Rightarrow> jsnum \<Rightarrow> bool" where
  "js_lt (Num a) (Num b) = (a < b)"
| "js_lt NaN _ = False"
| "js_lt _ NaN = False"
| "js_lt _ NInf = False"
| "js_lt PInf _ = False"
| "js_lt NInf _ = True"
| "js_lt _ PInf = True"

definition js_gt :: "jsnum \<Rightarrow> jsnum \<Rightarrow> bool" where
  "js_gt a b = js_lt b a"

section \<open>The dash renderer: \<open>generateTooltipDashHTML\<close>\<close>

text \<open>
  One block of the dashed swatch: the \<open>margin-right\<close> and \<open>padding-left\<close> of a
  \<open>div\<close>, both in em. The renderer appends one such \<open>div\<close> to the string \<open>dash\<close>
  in every round of its inner loop; the model collects the blocks in a list, in the order
  they are appended, and \<open>generateTooltipDashHTML\<close> prints and concatenates them.
\<close>

record segment =
  marginRight :: jsnum
  paddingLeft :: jsnum

text \<open>
  The first loop (lines 308 to 310): the sum over the indices \<open>0..length\<close> inclusive,
  the index wrapped by \<open>i % strokePattern.length\<close>.
\<close>

definition strokePixelLength :: "jsnum list \<Rightarrow> jsnum" where
  "strokePixelLength strokePattern =
     fold (\<lambda>i acc. js_add acc (strokePattern ! (i mod length strokePattern)))
       [0..<length strokePattern + 1] (Num 0)"

text \<open>
  What lines 313 to 330 leave in \<open>loop\<close>, \<open>normalizedPattern\<close> and \<open>segmentLoop\<close>.
\<close>

record dash_plan =
  loop :: jsnum
  normalizedPattern :: "jsnum list"
  segmentLoop :: nat

definition loopCount :: "jsnum list \<Rightarrow> jsnum \<Rightarrow> jsnum" where
  "loopCount strokePattern oneEmWidth =
     js_floor (js_div oneEmWidth
       (js_sub (strokePixelLength strokePattern) (strokePattern ! 0)))"

definition dashPlan :: "jsnum list \<Rightarrow> jsnum \<Rightarrow> dash_plan" where
  "dashPlan strokePattern oneEmWidth =
     (if js_gt (loopCount strokePattern oneEmWidth) (Num 1)
      then \<lparr>loop = loopCount strokePattern oneEmWidth,
            normalizedPattern = map (\<lambda>x. js_div x oneEmWidth) strokePattern,
            segmentLoop = length strokePattern\<rparr>
      else \<lparr>loop = Num 1,
            normalizedPattern =
              map (\<lambda>x. js_div x (strokePixelLength strokePattern)) strokePattern,
            segmentLoop = length strokePattern + 1\<rparr>)"

text \<open>
  The inner loop (lines 335 to 349), from index \<open>i\<close> on: \<open>n\<close> is
  \<open>strokePattern.length\<close>, \<open>np\<close> is \<open>normalizedPattern\<close>.
\<close>

function dashPass :: "jsnum list \<Rightarrow> nat \<Rightarrow> nat \<Rightarrow> nat \<Rightarrow> segment list \<Rightarrow> segment list" where
  "dashPass np n segLoop i dash =
     (if i < segLoop
      then dashPass np n segLoop (i + 2)
             (dash @ [\<lparr>marginRight = (if i < n then np ! ((i + 1) mod length np) else Num 0),
                       paddingLeft = np ! (i mod length np)\<rparr>])
      else dash)"
  by pat_completeness auto
termination
  by (relation "measure (\<lambda>(np, n, segLoop, i, dash). segLoop - i)") auto

declare dashPass.simps [simp del]

text \<open>
  The outer loop (line 334), from \<open>j\<close> on. With \<open>loop = Infinity\<close> its condition
  \<open>j < loop\<close> never fails: the loop may run forever, and then the result is \<open>None\<close>.
\<close>

partial_function (option) dashLoop ::
  "jsnum list \<Rightarrow> nat \<Rightarrow> nat \<Rightarrow> jsnum \<Rightarrow> nat \<Rightarrow> segment list \<Rightarrow> segment list option" where
  "dashLoop np n segLoop lp j dash =
     (if js_lt (Num (real j)) lp
      then dashLoop np n segLoop lp (j + 1) (dashPass np n segLoop 0 dash)
      else Some dash)"

definition generateTooltipDashSegments :: "jsnum list \<Rightarrow> jsnum \<Rightarrow> segment list option" where
  "generateTooltipDashSegments strokePattern oneEmWidth =
     (let p = dashPlan strokePattern oneEmWidth
      in dashLoop (normalizedPattern p) (length strokePattern) (segmentLoop p) (loop p) 0 [])"

text \<open>
  The markup. \<open>numToString\<close> is the conversion of a number to a string that
  JavaScript's \<open>+\<close> applies to \<open>marginRight\<close> and \<open>paddingLeft\<close>; it belongs to the
  language and is a parameter here.
\<close>

definition solidHTML :: "string \<Rightarrow> string" where
  \<open>solidHTML color =
     ''<div style="display: inline-block; position: relative; '' @
     ''bottom: .5ex; padding-left: 1em; height: 1px; '' @
     ''border-bottom: 2px solid '' @ color @ '';"></div>''\<close>

definition segmentHTML :: "(jsnum \<Rightarrow> string) \<Rightarrow> string \<Rightarrow> segment \<Rightarrow> string" where
  \<open>segmentHTML numToString color s =
     ''<div style="display: inline-block; position: relative; '' @
     ''bottom: .5ex; margin-right: '' @ numToString (marginRight s) @ ''em; padding-left: '' @
     numToString (paddingLeft s) @ ''em; height: 1px; border-bottom: 2px solid '' @ color @
     '';"></div>''\<close>

text \<open>
  \<open>generateTooltipDashHTML\<close>: \<open>None\<close> as \<open>strokePattern\<close> is a pattern that is
  absent (\<open>!strokePattern\<close>); \<open>None\<close> as the result is a call that does not return.
\<close>

definition generateTooltipDashHTML ::
  "(jsnum \<Rightarrow> string) \<Rightarrow> jsnum list option \<Rightarrow> string \<Rightarrow> jsnum \<Rightarrow> string option" where
  "generateTooltipDashHTML numToString strokePattern color oneEmWidth =
     (case strokePattern of
        None \<Rightarrow> Some (solidHTML color)
      | Some sp \<Rightarrow>
          if length sp \<le> 1 then Some (solidHTML color)
          else map_option (\<lambda>segs. concat (map (segmentHTML numToString color) segs))
                 (generateTooltipDashSegments sp oneEmWidth))"

text \<open>
  The rendered width of a swatch: the sum, over its blocks, of \<open>padding-left\<close> plus
  \<open>margin-right\<close>, in em.
\<close>

fun totalWidth :: "segment list \<Rightarrow> jsnum" where
  "totalWidth [] = Num 0"
| "totalWidth (s # ss) = js_add (js_add (paddingLeft s) (marginRight s)) (totalWidth ss)"

section \<open>The legend markup: \<open>escapeHTML\<close> and \<open>generateTooltipHTML\<close>\<close>

text \<open>
  \<open>str.replace(/c/g, r)\<close> for a pattern of one character. The four characters that are
  replaced are ASCII, so replacing them in the bytes of a string is replacing them in its
  characters.
\<close>

definition replaceAll :: "char \<Rightarrow> string \<Rightarrow> string \<Rightarrow> string" where
  "replaceAll c r str = concat (map (\<lambda>d. if d = c then r else [d]) str)"

definition escapeHTML :: "string \<Rightarrow> string" where
  "escapeHTML str =
     replaceAll (CHR ''>'') ''&gt;''
       (replaceAll (CHR ''<'') ''&lt;''
         (replaceAll (CHR 0x22) ''&quot;''
           (replaceAll (CHR ''&'') ''&amp;'' str)))"

text \<open>The escaping of one character, as the specification words it.\<close>

definition escapeChar :: "char \<Rightarrow> string" where
  "escapeChar c =
     (if c = CHR ''&'' then ''&amp;''
      else if c = CHR 0x22 then ''&quot;''
      else if c = CHR ''<'' then ''&lt;''
      else if c = CHR ''>'' then ''&gt;''
      else [c])"

text \<open>\<open>labels.indexOf(name)\<close>: the first index, or \<open>-1\<close>.\<close>

fun indexOf :: "string list \<Rightarrow> string \<Rightarrow> int" where
  "indexOf [] s = - 1"
| "indexOf (l # ls) s =
     (if l = s then 0 else if indexOf ls s < 0 then - 1 else indexOf ls s + 1)"

datatype error = TypeError

text \<open>What \<open>g.getPropertiesForSeries\<close> returns, as far as the plugin reads it.\<close>

record series_props =
  visible :: bool
  color :: string
  axis :: nat

text \<open>
  A selected point. \<open>point_x\<close> and \<open>point_y\<close> are its fields \<open>x\<close> and \<open>y\<close>, the
  coordinates as fractions of the plot area.
\<close>

record point =
  name :: string
  yval :: jsnum
  canvasy :: jsnum
  point_x :: jsnum
  point_y :: jsnum

text \<open>
  The graph \<open>g\<close>, as far as the plugin asks it: the options it reads with
  \<open>getOption\<close> and \<open>getOptionForAxis\<close>, the labels, the series' properties, the value
  formatters of the x axis and of the y axes \<open>0, 1, ...\<close> below \<open>numAxes\<close>, the
  highlighted series and the plot area. A formatter is given the value, the label or
  name, the row and the column; a row is \<open>None\<close> when it is \<open>null\<close>.
\<close>

record graph =
  showLabelsOnHighlight :: bool
  labelsShowZeroValues :: bool
  tooltipMode :: string
  tooltipDivWidth :: jsnum
  axisLabelWidth :: jsnum
  getLabels :: "string list"
  getPropertiesForSeries :: "string \<Rightarrow> series_props"
  strokePatternOf :: "string \<Rightarrow> jsnum list option"
  xValueFormatter :: "jsnum \<Rightarrow> string option \<Rightarrow> int option \<Rightarrow> int \<Rightarrow> string"
  numAxes :: nat
  yValueFormatter :: "nat \<Rightarrow> jsnum \<Rightarrow> string \<Rightarrow> int option \<Rightarrow> int \<Rightarrow> string"
  getHighlightSeries :: "string option"
  area_x :: jsnum
  area_y :: jsnum
  area_w :: jsnum
  area_h :: jsnum

text \<open>
  The loop over the labels when nothing is selected (lines 232 to 241), over
  \<open>labels[1], labels[2], ...\<close>. The result is \<open>None\<close> when a call of
  \<open>generateTooltipDashHTML\<close> does not return.
\<close>

fun defaultLegend ::
  "(jsnum \<Rightarrow> string) \<Rightarrow> graph \<Rightarrow> jsnum \<Rightarrow> string list \<Rightarrow> string \<Rightarrow> string option" where
  "defaultLegend numToString g oneEmWidth [] html = Some html"
| \<open>defaultLegend numToString g oneEmWidth (l # ls) html =
     (let series = getPropertiesForSeries g l in
      if \<not> visible series then defaultLegend numToString g oneEmWidth ls html
      else
        (case generateTooltipDashHTML numToString (strokePatternOf g l) (color series) oneEmWidth of
           None \<Rightarrow> None
         | Some dash \<Rightarrow>
             defaultLegend numToString g oneEmWidth ls
               ((if html \<noteq> [] then html @ ''<br/>'' else html) @
                ''<span style='font-weight: bold; color: '' @ color series @ '';'>'' @
                dash @ '' <span class="label">'' @ escapeHTML l @ ''</span></span>'')))\<close>

text \<open>
  The line of one selected point (lines 265 to 276), appended to \<open>html\<close>. The y axis
  of the series is \<open>yOptViews[series.axis - 1]\<close>; outside \<open>0..numAxes - 1\<close> that is
  \<open>undefined\<close>, and calling it throws.
\<close>

definition pointLine :: "graph \<Rightarrow> int option \<Rightarrow> point \<Rightarrow> error + string" where
  \<open>pointLine g row pt =
     (let series = getPropertiesForSeries g (name pt) in
      if 1 \<le> axis series \<and> axis series \<le> numAxes g
      then
        (let yval_text = yValueFormatter g (axis series - 1) (yval pt) (name pt) row
                           (indexOf (getLabels g) (name pt));
             cls = (if Some (name pt) = getHighlightSeries g
                    then '' class='highlight'' @ [CHR 0x27] else [])
         in Inr (''<br/>'' @ ''<span'' @ cls @ ''>'' @ '' <b><span style='color: '' @
                 color series @ '';'>'' @ escapeHTML (name pt) @ ''</span></b>:&#160;'' @
                 yval_text @ ''</span>''))
      else Inl TypeError)\<close>

text \<open>
  The loop over the selected points (lines 261 to 277). \<open>isOK\<close> is \<open>Dygraph.isOK\<close>,
  a function of the library that is not part of this file.
\<close>

fun selectedLines ::
  "(jsnum \<Rightarrow> bool) \<Rightarrow> graph \<Rightarrow> int option \<Rightarrow> point list \<Rightarrow> string \<Rightarrow> error + string" where
  "selectedLines isOK g row [] html = Inr html"
| "selectedLines isOK g row (pt # pts) html =
     (if yval pt = Num 0 \<and> \<not> labelsShowZeroValues g then selectedLines isOK g row pts html
      else if \<not> isOK (canvasy pt) then selectedLines isOK g row pts html
      else
        (case pointLine g row pt of
           Inl e \<Rightarrow> Inl e
         | Inr line \<Rightarrow> selectedLines isOK g row pts (html @ line)))"

text \<open>
  \<open>generateTooltipHTML\<close>. \<open>x\<close> is \<open>None\<close> when it is \<open>undefined\<close>. The result is
  \<open>None\<close> when the call does not return, \<open>Some (Inl e)\<close> when it throws \<open>e\<close>.
\<close>

definition generateTooltipHTML ::
  "(jsnum \<Rightarrow> string) \<Rightarrow> (jsnum \<Rightarrow> bool) \<Rightarrow> graph \<Rightarrow> jsnum option \<Rightarrow> point list \<Rightarrow> jsnum \<Rightarrow>
     int option \<Rightarrow> (error + string) option" where
  "generateTooltipHTML numToString isOK g x sel_points oneEmWidth row =
     (if \<not> showLabelsOnHighlight g then Some (Inr [])
      else
        (case x of
           None \<Rightarrow>
             map_option Inr (defaultLegend numToString g oneEmWidth (tl (getLabels g)) [])
         | Some xv \<Rightarrow>
             (let html = xValueFormatter g xv
                           (case getLabels g of [] \<Rightarrow> None | l # ls \<Rightarrow> Some l) row 0
              in Some (selectedLines isOK g row sel_points
                         (if html \<noteq> [] then html @ '':'' else html)))))"

section \<open>The handlers \<open>select\<close> and \<open>deselect\<close>\<close>

text \<open>
  The tooltip's \<open>div\<close>, as far as the handlers write it: four style properties, the
  content, and whether it is a child of the graph's \<open>div\<close>.
\<close>

record div_element =
  style_display :: string
  style_left :: string
  style_top :: string
  style_width :: string
  innerHTML :: string
  inGraphDiv :: bool

text \<open>The plugin's fields \<open>tooltip_div_\<close>, \<open>is_generated_div_\<close> and \<open>one_em_width_\<close>.\<close>

record tooltip =
  tooltip_div :: div_element
  is_generated_div :: bool
  one_em_width :: jsnum

record event =
  selectedX :: "jsnum option"
  selectedPoints :: "point list"
  selectedRow :: "int option"
  dygraph :: graph

text \<open>
  What the handlers take from the browser and the library: the conversion of a number to
  a string, \<open>Dygraph.isOK\<close>, \<open>window.scrollX\<close> and \<open>window.innerWidth\<close>, and the
  \<open>offsetWidth\<close> the layout gives a span of \<open>1em\<close> left padding inside a \<open>div\<close>.
\<close>

record browser =
  numberToString :: "jsnum \<Rightarrow> string"
  dygraphIsOK :: "jsnum \<Rightarrow> bool"
  scrollX :: jsnum
  innerWidth :: jsnum
  offsetWidthOfEm :: "div_element \<Rightarrow> jsnum"

text \<open>
  \<open>calculateEmWidthInDiv\<close> appends a span to the \<open>div\<close>, reads its width and removes
  it again: the \<open>div\<close> is as before.
\<close>

definition calculateEmWidthInDiv :: "browser \<Rightarrow> div_element \<Rightarrow> jsnum" where
  "calculateEmWidthInDiv b d = offsetWidthOfEm b d"

text \<open>
  The position of a tooltip that follows the pointer (lines 137 to 155). With no
  selected point \<open>points[0].x\<close> throws.
\<close>

definition followPosition :: "browser \<Rightarrow> graph \<Rightarrow> point list \<Rightarrow> div_element \<Rightarrow> error + div_element" where
  "followPosition b g points d =
     (case points of
        [] \<Rightarrow> Inl TypeError
      | p0 # ps \<Rightarrow>
          (let leftTooltip = js_add (js_mul (point_x p0) (area_w g)) (Num 20);
               topTooltip = js_sub (js_mul (point_y p0) (area_h g)) (Num 20);
               leftTooltip' =
                 (if js_gt (js_add (js_add leftTooltip (tooltipDivWidth g)) (Num 1))
                       (js_add (scrollX b) (innerWidth b))
                  then js_sub (js_sub (js_sub leftTooltip (js_mul (Num 2) (Num 20)))
                                (tooltipDivWidth g))
                         (js_sub (axisLabelWidth g) (area_x g))
                  else leftTooltip)
           in Inr (d\<lparr>inGraphDiv := True,
                    style_left := numberToString b (js_add (axisLabelWidth g) leftTooltip') @ ''px'',
                    style_top := numberToString b topTooltip @ ''px''\<rparr>)))"

text \<open>
  A handler's result: the plugin's state when the handler stops, and how it stops:
  \<open>None\<close> when it does not return, \<open>Some (Inl e)\<close> when it throws \<open>e\<close>,
  \<open>Some (Inr ())\<close> when it returns.
\<close>

definition select :: "browser \<Rightarrow> event \<Rightarrow> tooltip \<Rightarrow> tooltip \<times> (error + unit) option" where
  "select b e t =
     (let g = dygraph e in
      if tooltipMode g = ''never''
      then (t\<lparr>tooltip_div := (tooltip_div t)\<lparr>style_display := ''none''\<rparr>\<rparr>, Some (Inr ()))
      else
        (case (if tooltipMode g = ''follow''
               then followPosition b g (selectedPoints e) (tooltip_div t)
               else Inr (tooltip_div t)) of
           Inl err \<Rightarrow> (t, Some (Inl err))
         | Inr d \<Rightarrow>
             (case generateTooltipHTML (numberToString b) (dygraphIsOK b) g (selectedX e)
                     (selectedPoints e) (one_em_width t) (selectedRow e) of
                None \<Rightarrow> (t\<lparr>tooltip_div := d\<rparr>, None)
              | Some (Inl err) \<Rightarrow> (t\<lparr>tooltip_div := d\<rparr>, Some (Inl err))
              | Some (Inr html) \<Rightarrow>
                  (t\<lparr>tooltip_div := d\<lparr>innerHTML := html, style_display := []\<rparr>\<rparr>,
                   Some (Inr ())))))"

definition deselect :: "browser \<Rightarrow> event \<Rightarrow> tooltip \<Rightarrow> tooltip \<times> (error + unit) option" where
  "deselect b e t =
     (let oneEmWidth = calculateEmWidthInDiv b (tooltip_div t);
          t' = t\<lparr>one_em_width := oneEmWidth\<rparr>
      in case generateTooltipHTML (numberToString b) (dygraphIsOK b) (dygraph e) None []
                oneEmWidth None of
           None \<Rightarrow> (t', None)
         | Some (Inl err) \<Rightarrow> (t', Some (Inl err))
         | Some (Inr html) \<Rightarrow>
             (t'\<lparr>tooltip_div := (tooltip_div t')\<lparr>innerHTML := html\<rparr>\<rparr>, Some (Inr ())))"

definition didDrawChart :: "browser \<Rightarrow> event \<Rightarrow> tooltip \<Rightarrow> tooltip \<times> (error + unit) option" where
  "didDrawChart b e t = deselect b e t"

text \<open>\<open>predraw\<close> places a \<open>div\<close> that the plugin made itself; it always returns.\<close>

definition predraw :: "browser \<Rightarrow> event \<Rightarrow> tooltip \<Rightarrow> tooltip" where
  "predraw b e t =
     (if \<not> is_generated_div t then t
      else
        (let g = dygraph e in
         t\<lparr>tooltip_div := (tooltip_div t)
             \<lparr>inGraphDiv := True,
              style_left :=
                numberToString b
                  (js_sub (js_sub (js_add (area_x g) (area_w g)) (tooltipDivWidth g)) (Num 1))
                @ ''px'',
              style_top := numberToString b (area_y g) @ ''px'',
              style_width := numberToString b (tooltipDivWidth g) @ ''px''\<rparr>\<rparr>))"

section \<open>Notions used to state the properties\<close>

text \<open>The y axis of a point's series is one of the graph's axes.\<close>

definition axisValid :: "graph \<Rightarrow> point \<Rightarrow> bool" where
  "axisValid g pt =
     (1 \<le> axis (getPropertiesForSeries g (name pt))
      \<and> axis (getPropertiesForSeries g (name pt)) \<le> numAxes g)"

text \<open>A point passes both tests of the loop over the selected points.\<close>

definition shown :: "(jsnum \<Rightarrow> bool) \<Rightarrow> graph \<Rightarrow> point \<Rightarrow> bool" where
  "shown isOK g pt =
     (\<not> (yval pt = Num 0 \<and> \<not> labelsShowZeroValues g) \<and> isOK (canvasy pt))"

text \<open>The legend line of a point, with the name escaped character by character.\<close>

definition lineText :: "graph \<Rightarrow> int option \<Rightarrow> point \<Rightarrow> string" where
  \<open>lineText g row pt =
     ''<br/><span'' @
     (if Some (name pt) = getHighlightSeries g then '' class='highlight'' @ [CHR 0x27] else []) @
     ''> <b><span style='color: '' @ color (getPropertiesForSeries g (name pt)) @ '';'>'' @
     concat (map escapeChar (name pt)) @ ''</span></b>:&#160;'' @
     yValueFormatter g (axis (getPropertiesForSeries g (name pt)) - 1) (yval pt) (name pt) row
       (indexOf (getLabels g) (name pt)) @
     ''</span>''\<close>

text \<open>The formatted x value that starts the legend of a selection.\<close>

definition xHeader :: "graph \<Rightarrow> jsnum \<Rightarrow> int option \<Rightarrow> string" where
  "xHeader g xv row =
     (if xValueFormatter g xv (case getLabels g of [] \<Rightarrow> None | l # ls \<Rightarrow> Some l) row 0 \<noteq> []
      then xValueFormatter g xv (case getLabels g of [] \<Rightarrow> None | l # ls \<Rightarrow> Some l) row 0 @ '':''
      else [])"

text \<open>The legend entry of a label when nothing is selected, given its swatch.\<close>

definition labelEntry :: "graph \<Rightarrow> string \<Rightarrow> string \<Rightarrow> string" where
  \<open>labelEntry g l dash =
     ''<span style='font-weight: bold; color: '' @ color (getPropertiesForSeries g l) @ '';'>'' @
     dash @ '' <span class="label">'' @ concat (map escapeChar l) @ ''</span></span>''\<close>

text \<open>Entries joined by \<open><br/>\<close>, after what \<open>html\<close> holds already.\<close>

fun joinEntries :: "string \<Rightarrow> string list \<Rightarrow> string" where
  "joinEntries html [] = html"
| "joinEntries html (e # es) =
     joinEntries ((if html \<noteq> [] then html @ ''<br/>'' else html) @ e) es"

text \<open>
  A graph with the x label \<open>X\<close> and the series \<open>A<B\<close> and \<open>C\<close>, one y axis, and
  a y formatter that returns markup; a point of the series \<open>A<B\<close>, given its \<open>yval\<close>
  and \<open>canvasy\<close>; an instance of \<open>isOK\<close>; a printer of numbers that knows \<open>0.1\<close>;
  a browser; a tooltip; and a selection.
\<close>

definition exampleGraph :: graph where
  \<open>exampleGraph =
     \<lparr>showLabelsOnHighlight = True, labelsShowZeroValues = True, tooltipMode = ''always'',
      tooltipDivWidth = Num 200, axisLabelWidth = Num 50,
      getLabels = [''X'', ''A<B'', ''C''],
      getPropertiesForSeries = (\<lambda>l. \<lparr>visible = True, color = ''red'', axis = 1\<rparr>),
      strokePatternOf = (\<lambda>l. None),
      xValueFormatter = (\<lambda>v l r c. ''7''),
      numAxes = 1,
      yValueFormatter = (\<lambda>i v l r c. ''<i>5</i>''),
      getHighlightSeries = None,
      area_x = Num 50, area_y = Num 0, area_w = Num 400, area_h = Num 300\<rparr>\<close>

definition examplePoint :: "jsnum \<Rightarrow> jsnum \<Rightarrow> point" where
  \<open>examplePoint v cy =
     \<lparr>name = ''A<B'', yval = v, canvasy = cy, point_x = Num (1 / 2), point_y = Num (1 / 2)\<rparr>\<close>

definition exampleIsOK :: "jsnum \<Rightarrow> bool" where
  "exampleIsOK v = (v \<noteq> Num 0 \<and> v \<noteq> NaN)"

definition examplePrint :: "jsnum \<Rightarrow> string" where
  "examplePrint v = (if v = Num (1 / 10) then ''0.1'' else ''?'')"

definition exampleBrowser :: browser where
  \<open>exampleBrowser =
     \<lparr>numberToString = examplePrint, dygraphIsOK = exampleIsOK,
      scrollX = Num 0, innerWidth = Num 1000, offsetWidthOfEm = (\<lambda>d. Num 14)\<rparr>\<close>

definition exampleTooltip :: tooltip where
  \<open>exampleTooltip =
     \<lparr>tooltip_div = \<lparr>style_display = [], style_left = [], style_top = [],
                       style_width = [], innerHTML = [], inGraphDiv = True\<rparr>,
      is_generated_div = True, one_em_width = Num 10\<rparr>\<close>

definition exampleEvent :: event where
  "exampleEvent =
     \<lparr>selectedX = Some (Num 7), selectedPoints = [examplePoint (Num 5) (Num 3)],
      selectedRow = Some 0, dygraph = exampleGraph\<rparr>"

text \<open>
  The same graph with every series dashed by the pattern \<open>[1, 1]\<close>; and an event without a
  selection on it.
\<close>

definition dashedGraph :: graph where
  "dashedGraph = exampleGraph\<lparr>strokePatternOf := (\<lambda>l. Some [Num 1, Num 1])\<rparr>"

definition dashedEvent :: event where
  "dashedEvent =
     \<lparr>selectedX = None, selectedPoints = [], selectedRow = None, dygraph = dashedGraph\<rparr>"

section \<open>Properties of the dash renderer\<close>

subsection \<open>The loops\<close>

lemma dashPass_acc: "dashPass np n sl i dash = dash @ dashPass np n sl i []"
proof (induction "sl - i" arbitrary: i dash rule: less_induct)
  case less
  show ?case
  proof (cases "i < sl")
    case True
    define s where "s = \<lparr>marginRight = (if i < n then np ! ((i + 1) mod length np) else Num 0),
                       paddingLeft = np ! (i mod length np)\<rparr>"
    have m: "sl - (i + 2) < sl - i" using True by simp
    have "dashPass np n sl i dash = dashPass np n sl (i + 2) (dash @ [s])"
      using True unfolding s_def by (subst dashPass.simps) simp
    also have "\<dots> = (dash @ [s]) @ dashPass np n sl (i + 2) []"
      by (rule less(1)[OF m])
    also have "\<dots> = dash @ dashPass np n sl (i + 2) [s]"
      using less(1)[OF m, of "[s]"] by simp
    also have "dashPass np n sl (i + 2) [s] = dashPass np n sl i []"
      using True unfolding s_def by (subst (2) dashPass.simps) simp
    finally show ?thesis .
  next
    case False
    then show ?thesis by (subst dashPass.simps, subst (2) dashPass.simps) simp
  qed
qed

text \<open>A call of the outer loop that returns was not given \<open>Infinity\<close> as its bound.\<close>

lemma dashLoop_returns_finite:
  assumes "dashLoop np n sl lp j dash = Some r"
  shows "lp \<noteq> PInf"
proof (rule dashLoop.raw_induct [where P = "\<lambda>np n sl lp j dash y. lp \<noteq> PInf", OF _ assms])
  fix dl np n sl lp j dash r
  assume ih: "\<And>a b c lp j d y. dl a b c lp j d = Some y \<Longrightarrow> lp \<noteq> PInf"
    and eq: "(if js_lt (Num (real j)) lp
          then dl np n sl lp (j + 1) (dashPass np n sl 0 dash) else Some dash) = Some r"
  show "lp \<noteq> PInf"
  proof
    assume inf: "lp = PInf"
    then have "dl np n sl lp (j + 1) (dashPass np n sl 0 dash) = Some r"
      using eq by simp
    from ih[OF this] inf show False by simp
  qed
qed

lemma dashLoop_PInf: "dashLoop np n sl PInf j dash = None"
proof (cases "dashLoop np n sl PInf j dash")
  case None
  then show ?thesis .
next
  case (Some r)
  from dashLoop_returns_finite[OF this] show ?thesis by simp
qed

text \<open>With a finite bound the outer loop returns, after one pass per \<open>j < k\<close>.\<close>

lemma dashLoop_finite:
  "dashLoop np n sl (Num k) j dash =
     Some (dash @ concat (replicate (nat \<lceil>k\<rceil> - j) (dashPass np n sl 0 [])))"
proof (induction "nat \<lceil>k\<rceil> - j" arbitrary: j dash)
  case 0
  then have "\<not> real j < k" by linarith
  then show ?case using 0 by (subst dashLoop.simps) simp
next
  case (Suc m)
  then have lt: "real j < k" by linarith
  have m: "m = nat \<lceil>k\<rceil> - (j + 1)" using Suc(2) by simp
  have r: "nat \<lceil>k\<rceil> - j = Suc (nat \<lceil>k\<rceil> - (j + 1))" using Suc(2) by simp
  have "dashLoop np n sl (Num k) j dash =
          dashLoop np n sl (Num k) (j + 1) (dashPass np n sl 0 dash)"
    using lt by (subst dashLoop.simps) simp
  also have "\<dots> = Some (dashPass np n sl 0 dash @
       concat (replicate (nat \<lceil>k\<rceil> - (j + 1)) (dashPass np n sl 0 [])))"
    by (rule Suc(1)[OF m])
  also have "dashPass np n sl 0 dash = dash @ dashPass np n sl 0 []"
    by (rule dashPass_acc)
  finally show ?case unfolding r by simp
qed

lemma fold_nth_upt:
  "fold (\<lambda>i acc. f acc (xs ! i)) [0..<length xs] a = foldl f a xs"
proof (induction xs arbitrary: a rule: rev_induct)
  case Nil
  then show ?case by simp
next
  case (snoc x xs)
  have "fold (\<lambda>i acc. f acc ((xs @ [x]) ! i)) [0..<length xs] a =
        fold (\<lambda>i acc. f acc (xs ! i)) [0..<length xs] a"
    by (rule fold_cong) (auto simp: nth_append)
  then show ?case using snoc by simp
qed

lemma strokePixelLength_sum:
  assumes "sp \<noteq> []"
  shows "strokePixelLength sp = js_add (foldl js_add (Num 0) sp) (sp ! 0)"
proof -
  have "fold (\<lambda>i acc. js_add acc (sp ! (i mod length sp))) [0..<length sp] (Num 0) =
        fold (\<lambda>i acc. js_add acc (sp ! i)) [0..<length sp] (Num 0)"
    by (rule fold_cong) auto
  then show ?thesis
    using assms by (simp add: strokePixelLength_def fold_nth_upt)
qed

lemma strokePixelLength_pair:
  "strokePixelLength [a, b] = js_add (js_add (js_add (Num 0) a) b) a"
  by (simp add: strokePixelLength_sum)

lemma strokePixelLength_triple:
  "strokePixelLength [a, b, c] = js_add (js_add (js_add (js_add (Num 0) a) b) c) a"
  by (simp add: strokePixelLength_sum)

subsection \<open>The two branches\<close>

lemma segments_tile:
  assumes "js_gt (loopCount sp w) (Num 1)" and "loopCount sp w = Num k"
  shows "generateTooltipDashSegments sp w =
     Some (concat (replicate (nat \<lceil>k\<rceil>)
       (dashPass (map (\<lambda>x. js_div x w) sp) (length sp) (length sp) 0 [])))"
  using assms by (simp add: generateTooltipDashSegments_def dashPlan_def dashLoop_finite)

lemma segments_squeeze:
  assumes "\<not> js_gt (loopCount sp w) (Num 1)"
  shows "generateTooltipDashSegments sp w =
     Some (dashPass (map (\<lambda>x. js_div x (strokePixelLength sp)) sp)
             (length sp) (length sp + 1) 0 [])"
  using assms by (simp add: generateTooltipDashSegments_def dashPlan_def dashLoop_finite)

lemma segments_diverge:
  assumes "loopCount sp w = PInf"
  shows "generateTooltipDashSegments sp w = None"
  using assms by (simp add: generateTooltipDashSegments_def dashPlan_def dashLoop_PInf js_gt_def)

lemma pass_pair_tile:
  "dashPass [x, y] 2 2 0 [] = [\<lparr>marginRight = y, paddingLeft = x\<rparr>]"
  by (simp add: dashPass.simps)


lemma pass_triple_tile:
  "dashPass [x, y, z] 3 3 0 [] =
     [\<lparr>marginRight = y, paddingLeft = x\<rparr>, \<lparr>marginRight = x, paddingLeft = z\<rparr>]"
  by (simp add: dashPass.simps)

lemma concat_replicate_single: "concat (replicate n [s]) = replicate n s"
  by (induction n) simp_all

lemma length_pair: "length [x, y] = 2"
  by simp

lemma length_triple: "length [x, y, z] = 3"
  by simp

subsection \<open>Four concrete swatches\<close>

lemma loopCount_zeros: "loopCount [Num 0, Num 0] (Num 10) = PInf"
  by (simp add: loopCount_def strokePixelLength_pair js_sub_def)


lemma loopCount_1_1: "loopCount [Num 1, Num 1] (Num 10) = Num 5"
  by (simp add: loopCount_def strokePixelLength_pair js_sub_def)

lemma loopCount_100_1_1: "loopCount [Num 100, Num 1, Num 1] (Num 1020) = Num 10"
  by (simp add: loopCount_def strokePixelLength_triple js_sub_def)


lemma segments_1_1:
  "generateTooltipDashSegments [Num 1, Num 1] (Num 10) =
     Some (replicate 5 \<lparr>marginRight = Num (1 / 10), paddingLeft = Num (1 / 10)\<rparr>)"
proof -
  have "js_gt (loopCount [Num 1, Num 1] (Num 10)) (Num 1)"
    by (simp add: loopCount_1_1 js_gt_def)
  from segments_tile[OF this loopCount_1_1] show ?thesis
    by (simp only: length_pair list.map) (simp add: pass_pair_tile concat_replicate_single)
qed

lemma segments_100_1_1:
  "generateTooltipDashSegments [Num 100, Num 1, Num 1] (Num 1020) =
     Some (concat (replicate 10
       [\<lparr>marginRight = Num (1 / 1020), paddingLeft = Num (100 / 1020)\<rparr>,
        \<lparr>marginRight = Num (100 / 1020), paddingLeft = Num (1 / 1020)\<rparr>]))"
proof -
  have "js_gt (loopCount [Num 100, Num 1, Num 1] (Num 1020)) (Num 1)"
    by (simp add: loopCount_100_1_1 js_gt_def)
  from segments_tile[OF this loopCount_100_1_1] show ?thesis
    by (simp only: length_triple list.map) (simp add: pass_triple_tile)
qed

subsection \<open>The claims about the dash renderer\<close>

text \<open>
  Claim C1 (what the code does on it). The claim says that a \<open>loopCount\<close> that is not
  finite sends the renderer to the squeeze branch. For the pattern \<open>[0, 0]\<close> and the
  budget 10 the divisor \<open>strokePixelLength - strokePattern[0]\<close> is 0, \<open>loopCount\<close> is
  \<open>Infinity\<close>, the test \<open>loop > 1\<close> holds, the tile branch is taken (the pattern is
  divided by the budget, \<open>segmentLoop\<close> is the pattern's length), and the call never
  returns.
\<close>

theorem zero_pattern_never_returns:
  "loopCount [Num 0, Num 0] (Num 10) = PInf
   \<and> js_gt (loopCount [Num 0, Num 0] (Num 10)) (Num 1)
   \<and> dashPlan [Num 0, Num 0] (Num 10) =
       \<lparr>loop = PInf, normalizedPattern = [Num 0, Num 0], segmentLoop = 2\<rparr>
   \<and> generateTooltipDashHTML numToString (Some [Num 0, Num 0]) col (Num 10) = None"
  by (simp add: loopCount_zeros js_gt_def dashPlan_def generateTooltipDashHTML_def
      segments_diverge)



lemma js_floor_int: "js_floor x = Num k \<Longrightarrow> \<lceil>k\<rceil> = \<lfloor>k\<rfloor>"
  by (cases x) auto

lemma tile_pass_explicit:
  assumes "length np = n"
  shows "dashPass np n n 0 [] =
     map (\<lambda>h. \<lparr>marginRight = np ! ((2 * h + 1) mod n), paddingLeft = np ! (2 * h)\<rparr>)
       [0..<(n + 1) div 2]"
proof -
  have step: "dashPass np n n i [] =
      map (\<lambda>h. \<lparr>marginRight = np ! ((i + 2 * h + 1) mod n), paddingLeft = np ! (i + 2 * h)\<rparr>)
        [0..<(n - i + 1) div 2]" for i
  proof (induction "n - i" arbitrary: i rule: less_induct)
    case less
    show ?case
    proof (cases "i < n")
      case True
      have m: "n - (i + 2) < n - i" using True by simp
      have c: "(n - i + 1) div 2 = Suc ((n - (i + 2) + 1) div 2)"
        using True by presburger
      have "dashPass np n n i [] =
          dashPass np n n (i + 2) [\<lparr>marginRight = np ! ((i + 1) mod n), paddingLeft = np ! i\<rparr>]"
        using True assms by (subst dashPass.simps) simp
      also have "\<dots> = \<lparr>marginRight = np ! ((i + 1) mod n), paddingLeft = np ! i\<rparr> #
          dashPass np n n (i + 2) []"
        by (subst dashPass_acc) simp
      also have "dashPass np n n (i + 2) [] =
          map (\<lambda>h. \<lparr>marginRight = np ! ((i + 2 + 2 * h + 1) mod n),
                      paddingLeft = np ! (i + 2 + 2 * h)\<rparr>)
            [0..<(n - (i + 2) + 1) div 2]"
        by (rule less(1)[OF m])
      finally show ?thesis
        unfolding c by (simp add: upt_conv_Cons map_Suc_upt [symmetric] del: upt_Suc)
    next
      case False
      then have "(n - i + 1) div 2 = 0" by simp
      with False show ?thesis by (subst dashPass.simps) simp
    qed
  qed
  from step[of 0] show ?thesis by simp
qed

lemma html_of_segments:
  assumes "2 \<le> length sp" and "generateTooltipDashSegments sp w = Some segs"
  shows "generateTooltipDashHTML numToString (Some sp) col w =
     Some (concat (map (segmentHTML numToString col) segs))"
  using assms by (simp add: generateTooltipDashHTML_def)

lemma html_diverges:
  assumes "2 \<le> length sp" and "loopCount sp w = PInf"
  shows "generateTooltipDashHTML numToString (Some sp) col w = None"
  using assms by (simp add: generateTooltipDashHTML_def segments_diverge)

lemma concat_map_concat_replicate:
  "concat (map f (concat (replicate k xs))) = concat (replicate k (concat (map f xs)))"
  by (induction k) simp_all

text \<open>The markup of a pattern of two numbers in the tile branch.\<close>

lemma loopCount_pair:
  assumes "a + b \<noteq> 0"
  shows "loopCount [Num a, Num b] (Num B) = Num (of_int \<lfloor>B / (a + b)\<rfloor>)"
  using assms by (simp add: loopCount_def strokePixelLength_pair js_sub_def)

lemma segments_pair_tile:
  assumes ab: "a + b \<noteq> 0"
    and gt: "js_gt (loopCount [Num a, Num b] (Num B)) (Num 1)"
  shows "B \<noteq> 0" and "1 < \<lfloor>B / (a + b)\<rfloor>"
    and "generateTooltipDashSegments [Num a, Num b] (Num B) =
      Some (replicate (nat \<lfloor>B / (a + b)\<rfloor>)
        \<lparr>marginRight = Num (b / B), paddingLeft = Num (a / B)\<rparr>)"
proof -
  note lc = loopCount_pair[OF ab, of B]
  show k1: "1 < \<lfloor>B / (a + b)\<rfloor>" using gt by (simp add: lc js_gt_def)
  show B0: "B \<noteq> 0"
  proof
    assume "B = 0"
    with k1 show False by simp
  qed
  show "generateTooltipDashSegments [Num a, Num b] (Num B) =
      Some (replicate (nat \<lfloor>B / (a + b)\<rfloor>)
        \<lparr>marginRight = Num (b / B), paddingLeft = Num (a / B)\<rparr>)"
    using segments_tile[OF gt lc] B0
    by (simp only: length_pair list.map) (simp add: pass_pair_tile concat_replicate_single)
qed

lemma html_pair_tile:
  assumes ab: "a + b \<noteq> 0"
    and gt: "js_gt (loopCount [Num a, Num b] (Num B)) (Num 1)"
  shows "generateTooltipDashHTML numToString (Some [Num a, Num b]) col (Num B) =
      Some (concat (replicate (nat \<lfloor>B / (a + b)\<rfloor>)
        (segmentHTML numToString col \<lparr>marginRight = Num (b / B), paddingLeft = Num (a / B)\<rparr>)))"
proof -
  have l: "2 \<le> length [Num a, Num b]" by simp
  from html_of_segments[OF l segments_pair_tile(3)[OF ab gt]] show ?thesis by simp
qed

text \<open>
  Claim C4. For every pattern of at least two elements: \<open>strokePixelLength\<close> is the sum
  of all elements plus the first one once more; \<open>loopCount\<close> is the floor of the budget
  divided by \<open>strokePixelLength - strokePattern[0]\<close>; and when \<open>loopCount > 1\<close>, the
  pattern is divided by the budget, \<open>segmentLoop\<close> is the pattern's length, and
  \<open>generateTooltipDashHTML\<close> returns, for a \<open>loopCount\<close> that is a number \<open>k\<close>, the
  markup of \<open>k\<close> repetitions of the blocks at the indices \<open>0, 2, 4, ...\<close> below the
  length, none of them the first segment drawn again with margin 0. The only other
  \<open>loopCount > 1\<close> is \<open>Infinity\<close>: then the repetitions never end and the call does not
  return.
\<close>

theorem tile_branch_plan:
  assumes "2 \<le> length sp"
  shows "strokePixelLength sp = js_add (foldl js_add (Num 0) sp) (sp ! 0)
    \<and> loopCount sp w = js_floor (js_div w (js_sub (strokePixelLength sp) (sp ! 0)))
    \<and> (js_gt (loopCount sp w) (Num 1) \<longrightarrow>
          dashPlan sp w = \<lparr>loop = loopCount sp w,
                           normalizedPattern = map (\<lambda>x. js_div x w) sp,
                           segmentLoop = length sp\<rparr>
          \<and> (\<exists>k. (loopCount sp w = Num k \<and> 1 < k) \<or> loopCount sp w = PInf)
          \<and> (\<forall>k. loopCount sp w = Num k \<longrightarrow>
                generateTooltipDashHTML numToString (Some sp) col w =
                  Some (concat (replicate (nat \<lfloor>k\<rfloor>)
                    (concat (map (\<lambda>h. segmentHTML numToString col
                        \<lparr>marginRight = map (\<lambda>x. js_div x w) sp ! ((2 * h + 1) mod length sp),
                          paddingLeft = map (\<lambda>x. js_div x w) sp ! (2 * h)\<rparr>)
                       [0..<(length sp + 1) div 2])))))
          \<and> (loopCount sp w = PInf \<longrightarrow>
                generateTooltipDashHTML numToString (Some sp) col w = None))"
proof (intro conjI impI allI)
  from assms have ne: "sp \<noteq> []" by auto
  show "strokePixelLength sp = js_add (foldl js_add (Num 0) sp) (sp ! 0)"
    by (rule strokePixelLength_sum[OF ne])
  show "loopCount sp w = js_floor (js_div w (js_sub (strokePixelLength sp) (sp ! 0)))"
    by (simp add: loopCount_def)
next
  assume "js_gt (loopCount sp w) (Num 1)"
  then show "dashPlan sp w = \<lparr>loop = loopCount sp w,
                           normalizedPattern = map (\<lambda>x. js_div x w) sp,
                           segmentLoop = length sp\<rparr>"
    by (simp add: dashPlan_def)
next
  assume "js_gt (loopCount sp w) (Num 1)"
  then show "\<exists>k. (loopCount sp w = Num k \<and> 1 < k) \<or> loopCount sp w = PInf"
    by (cases "loopCount sp w") (simp_all add: js_gt_def)
next
  fix k
  assume gt: "js_gt (loopCount sp w) (Num 1)" and k: "loopCount sp w = Num k"
  have c: "\<lceil>k\<rceil> = \<lfloor>k\<rfloor>" using k unfolding loopCount_def by (rule js_floor_int)
  have p: "dashPass (map (\<lambda>x. js_div x w) sp) (length sp) (length sp) 0 [] =
      map (\<lambda>h. \<lparr>marginRight = map (\<lambda>x. js_div x w) sp ! ((2 * h + 1) mod length sp),
                  paddingLeft = map (\<lambda>x. js_div x w) sp ! (2 * h)\<rparr>)
        [0..<(length sp + 1) div 2]"
    by (rule tile_pass_explicit) simp
  have s: "generateTooltipDashSegments sp w =
                  Some (concat (replicate (nat \<lfloor>k\<rfloor>)
                    (map (\<lambda>h. \<lparr>marginRight = map (\<lambda>x. js_div x w) sp ! ((2 * h + 1) mod length sp),
                                paddingLeft = map (\<lambda>x. js_div x w) sp ! (2 * h)\<rparr>)
                       [0..<(length sp + 1) div 2])))"
    using segments_tile[OF gt k] unfolding c p .
  show "generateTooltipDashHTML numToString (Some sp) col w =
                  Some (concat (replicate (nat \<lfloor>k\<rfloor>)
                    (concat (map (\<lambda>h. segmentHTML numToString col
                        \<lparr>marginRight = map (\<lambda>x. js_div x w) sp ! ((2 * h + 1) mod length sp),
                          paddingLeft = map (\<lambda>x. js_div x w) sp ! (2 * h)\<rparr>)
                       [0..<(length sp + 1) div 2]))))"
    unfolding html_of_segments[OF assms s] concat_map_concat_replicate
    by (simp add: comp_def)
next
  assume "loopCount sp w = PInf"
  then show "generateTooltipDashHTML numToString (Some sp) col w = None"
    by (rule html_diverges[OF assms])
qed

theorem tile_branch_plan_witness:
  \<open>2 \<le> length [Num 1, Num 1]
   \<and> js_gt (loopCount [Num 1, Num 1] (Num 10)) (Num 1)
   \<and> loopCount [Num 1, Num 1] (Num 10) = Num 5
   \<and> dashPlan [Num 1, Num 1] (Num 10) =
        \<lparr>loop = Num 5, normalizedPattern = [Num (1 / 10), Num (1 / 10)], segmentLoop = 2\<rparr>
   \<and> generateTooltipDashHTML examplePrint (Some [Num 1, Num 1]) ''#f00'' (Num 10) =
        Some (concat (replicate 5
          ''<div style="display: inline-block; position: relative; bottom: .5ex; margin-right: 0.1em; padding-left: 0.1em; height: 1px; border-bottom: 2px solid #f00;"></div>''))\<close>
proof -
  have l: "2 \<le> length [Num 1, Num 1]" by simp
  have g: "js_gt (loopCount [Num 1, Num 1] (Num 10)) (Num 1)"
    by (simp add: loopCount_1_1 js_gt_def)
  have u: "[0..<(length [Num 1, Num 1] + 1) div 2] = [0]" by simp
  note t = tile_branch_plan[OF l, of "Num 10" examplePrint "''#f00''"]
  from t g loopCount_1_1
  have p: "dashPlan [Num 1, Num 1] (Num 10) =
        \<lparr>loop = Num 5, normalizedPattern = [Num (1 / 10), Num (1 / 10)], segmentLoop = 2\<rparr>"
    by simp
  from t g loopCount_1_1
  have \<open>generateTooltipDashHTML examplePrint (Some [Num 1, Num 1]) ''#f00'' (Num 10) =
        Some (concat (replicate 5
          ''<div style="display: inline-block; position: relative; bottom: .5ex; margin-right: 0.1em; padding-left: 0.1em; height: 1px; border-bottom: 2px solid #f00;"></div>''))\<close>
    unfolding u by (simp add: segmentHTML_def examplePrint_def)
  with l g loopCount_1_1 p show ?thesis by simp
qed

subsection \<open>Rendered widths\<close>

lemma foldl_js_add_Num: "foldl js_add (Num a) (map Num rs) = Num (a + sum_list rs)"
  by (induction rs arbitrary: a) (simp_all add: add.assoc)

lemma strokePixelLength_Num:
  assumes "rs \<noteq> []"
  shows "strokePixelLength (map Num rs) = Num (sum_list rs + rs ! 0)"
  using assms by (simp add: strokePixelLength_sum foldl_js_add_Num nth_map)

lemma loopCount_Num:
  assumes "rs \<noteq> []" and "sum_list rs \<noteq> 0"
  shows "loopCount (map Num rs) (Num B) = Num (of_int \<lfloor>B / sum_list rs\<rfloor>)"
  using assms by (simp add: loopCount_def strokePixelLength_Num js_sub_def nth_map)

lemma totalWidth_Num_append:
  assumes "totalWidth xs = Num u" and "totalWidth ys = Num v"
  shows "totalWidth (xs @ ys) = Num (u + v)"
  using assms
proof (induction xs arbitrary: u)
  case Nil
  then show ?case by simp
next
  case (Cons s xs)
  from Cons.prems(1) obtain p q where p: "js_add (paddingLeft s) (marginRight s) = Num p"
    and q: "totalWidth xs = Num q" and u: "u = p + q"
    by (cases "js_add (paddingLeft s) (marginRight s)"; cases "totalWidth xs") auto
  from Cons.IH[OF q Cons.prems(2)] p u show ?case by simp
qed

lemma totalWidth_replicate:
  assumes "totalWidth p = Num u"
  shows "totalWidth (concat (replicate k p)) = Num (real k * u)"
proof (induction k)
  case 0
  then show ?case by simp
next
  case (Suc k)
  have "totalWidth (p @ concat (replicate k p)) = Num (u + real k * u)"
    by (rule totalWidth_Num_append[OF assms Suc])
  then show ?case by (simp add: algebra_simps)
qed

lemma pass_width:
  assumes n: "n = length qs" and pos: "0 < n" and sl: "sl = n \<or> sl = n + 1" and ev: "even i"
  shows "totalWidth (dashPass (map Num qs) n sl i []) =
     Num (if sl \<le> i then 0
          else sum_list (drop i qs) + (if even n \<and> sl = n then 0 else qs ! 0))"
  using ev
proof (induction "sl - i" arbitrary: i rule: less_induct)
  case less
  show ?case
  proof (cases "i < sl")
    case False
    then show ?thesis by (subst dashPass.simps) simp
  next
    case True
    have m: "sl - (i + 2) < sl - i" using True by simp
    have ev2: "even (i + 2)" using less.prems by simp
    note ih = less.hyps[OF m ev2]
    have step: "dashPass (map Num qs) n sl i [] =
        \<lparr>marginRight = (if i < n then map Num qs ! ((i + 1) mod n) else Num 0),
          paddingLeft = map Num qs ! (i mod n)\<rparr> # dashPass (map Num qs) n sl (i + 2) []"
      using True n by (subst dashPass.simps, subst dashPass_acc) simp
    consider (inner) "i + 1 < n" | (last) "i + 1 = n" | (closing) "i = n"
      using True sl by linarith
    then show ?thesis
    proof cases
      case inner
      then have d: "drop i qs = qs ! i # qs ! (i + 1) # drop (i + 2) qs"
        using n by (simp add: Cons_nth_drop_Suc)
      have "sl \<le> i + 2 \<Longrightarrow> even n \<and> sl = n \<and> drop (i + 2) qs = []"
      proof -
        assume a: "sl \<le> i + 2"
        then have e: "n = i + 2" and "sl = n" using inner sl by auto
        moreover have "even n" unfolding e using less.prems by simp
        ultimately show ?thesis using n by simp
      qed
      then show ?thesis
        unfolding step using inner n True ih d
        by (auto simp: nth_map)
    next
      case last
      then have d: "drop i qs = [qs ! i]"
        using n by (metis Cons_nth_drop_Suc Suc_eq_plus1 drop_all lessI order_refl)
      have odd: "odd n" using last less.prems by auto
      show ?thesis
        unfolding step using last n True ih d odd sl pos
        by (auto simp: nth_map)
    next
      case closing
      then have "sl = n + 1" using True sl by simp
      moreover have "even n" using closing less.prems by simp
      ultimately show ?thesis
        unfolding step using closing n ih pos
        by (auto simp: nth_map)
    qed
  qed
qed

lemma sum_list_all_pos_nonneg:
  "list_all (\<lambda>r. 0 < r) rs \<Longrightarrow> 0 \<le> sum_list (rs :: real list)"
  by (induction rs) auto

lemma sum_list_pos:
  assumes "rs \<noteq> []" and "list_all (\<lambda>r. 0 < r) rs"
  shows "0 < sum_list (rs :: real list)"
proof (cases rs)
  case Nil
  with assms show ?thesis by simp
next
  case (Cons a as)
  with assms have "0 < a" and "0 \<le> sum_list as"
    by (simp_all add: sum_list_all_pos_nonneg)
  with Cons show ?thesis by simp
qed

lemma sum_list_scaled: "sum_list (map (\<lambda>r. r / d) rs) = sum_list rs / (d :: real)"
  by (induction rs) (simp_all add: add_divide_distrib)

lemma totalWidth_replicate_single:
  "totalWidth (replicate k \<lparr>marginRight = Num m, paddingLeft = Num p\<rparr>) = Num (real k * (p + m))"
  by (induction k) (simp_all add: algebra_simps)


text \<open>
  Where the rendered width keeps to the budget. For a pattern of positive numbers with
  at least two elements and a positive budget the call returns, and the rendered width, the sum of
  \<open>padding-left\<close> plus \<open>margin-right\<close> over all blocks, is exactly 1em in the squeeze
  branch and at most 1em in the tile branch when the pattern's length is even. In the
  tile branch the width times the budget is \<open>loopCount\<close> times the sum of the pattern,
  to which an odd length adds the first element: each repetition then ends with the first
  element as a gap.
\<close>

theorem total_width_within_budget:
  assumes len: "2 \<le> length rs" and pos: "list_all (\<lambda>r. 0 < r) rs" and B: "0 < B"
  shows "\<exists>segs w. generateTooltipDashSegments (map Num rs) (Num B) = Some segs
      \<and> totalWidth segs = Num w
      \<and> (\<not> js_gt (loopCount (map Num rs) (Num B)) (Num 1) \<longrightarrow> w = 1)
      \<and> (js_gt (loopCount (map Num rs) (Num B)) (Num 1) \<and> even (length rs) \<longrightarrow> w \<le> 1)
      \<and> (js_gt (loopCount (map Num rs) (Num B)) (Num 1) \<longrightarrow>
            js_mul (Num w) (Num B) =
            js_mul (loopCount (map Num rs) (Num B))
              (Num (sum_list rs + (if even (length rs) then 0 else rs ! 0))))"
proof -
  from len have ne: "rs \<noteq> []" by auto
  define S where "S = sum_list rs"
  have S: "0 < S" unfolding S_def by (rule sum_list_pos[OF ne pos])
  have r0: "0 < rs ! 0" using ne pos by (cases rs) simp_all
  have lc: "loopCount (map Num rs) (Num B) = Num (of_int \<lfloor>B / S\<rfloor>)"
    unfolding S_def using ne S by (intro loopCount_Num) (auto simp: S_def)
  have spl: "strokePixelLength (map Num rs) = Num (S + rs ! 0)"
    unfolding S_def by (rule strokePixelLength_Num[OF ne])
  show ?thesis
  proof (cases "js_gt (loopCount (map Num rs) (Num B)) (Num 1)")
    case False
    have np: "map (\<lambda>x. js_div x (strokePixelLength (map Num rs))) (map Num rs) =
        map Num (map (\<lambda>r. r / (S + rs ! 0)) rs)"
      using S r0 by (simp add: spl)
    have "generateTooltipDashSegments (map Num rs) (Num B) =
        Some (dashPass (map Num (map (\<lambda>r. r / (S + rs ! 0)) rs)) (length rs) (length rs + 1) 0 [])"
      using segments_squeeze[OF False] unfolding np by simp
    moreover have "totalWidth (dashPass (map Num (map (\<lambda>r. r / (S + rs ! 0)) rs))
        (length rs) (length rs + 1) 0 []) = Num 1"
    proof -
      have "sum_list (map (\<lambda>r. r / (S + rs ! 0)) rs) = S / (S + rs ! 0)"
        unfolding S_def by (simp add: sum_list_scaled)
      then show ?thesis
        using ne S r0
        by (subst pass_width) (auto simp: nth_map add_divide_distrib [symmetric])
    qed
    ultimately show ?thesis using False by simp
  next
    case True
    define k where "k = \<lfloor>B / S\<rfloor>"
    have lck: "loopCount (map Num rs) (Num B) = Num (of_int k)" using lc by (simp add: k_def)
    have k1: "1 < k" using True lck by (simp add: js_gt_def)
    have np: "map (\<lambda>x. js_div x (Num B)) (map Num rs) = map Num (map (\<lambda>r. r / B) rs)"
      using B by simp
    have g: "generateTooltipDashSegments (map Num rs) (Num B) =
        Some (concat (replicate (nat k)
          (dashPass (map Num (map (\<lambda>r. r / B) rs)) (length rs) (length rs) 0 [])))"
      using segments_tile[OF True lck] unfolding np by simp
    define u where "u = sum_list (map (\<lambda>r. r / B) rs) + (if even (length rs) then 0 else rs ! 0 / B)"
    have pw: "totalWidth (dashPass (map Num (map (\<lambda>r. r / B) rs)) (length rs) (length rs) 0 []) = Num u"
      using ne unfolding u_def by (subst pass_width) (auto simp: nth_map)
    have tw: "totalWidth (concat (replicate (nat k)
          (dashPass (map Num (map (\<lambda>r. r / B) rs)) (length rs) (length rs) 0 []))) =
          Num (real (nat k) * u)"
      by (rule totalWidth_replicate[OF pw])
    have "even (length rs) \<Longrightarrow> real (nat k) * u \<le> 1"
    proof -
      assume e: "even (length rs)"
      have "u = S / B" using e unfolding u_def S_def
        by (simp add: sum_list_scaled)
      moreover have "of_int k \<le> B / S" unfolding k_def by simp
      then have "of_int k * S \<le> B" using S by (simp add: pos_le_divide_eq)
      moreover have "real (nat k) = of_int k" using k1 by simp
      ultimately show ?thesis using B by (simp add: pos_divide_le_eq)
    qed
    moreover have "js_mul (Num (real (nat k) * u)) (Num B) =
            js_mul (loopCount (map Num rs) (Num B))
              (Num (sum_list rs + (if even (length rs) then 0 else rs ! 0)))"
    proof -
      have "u * B = sum_list rs + (if even (length rs) then 0 else rs ! 0)"
        using B unfolding u_def by (simp add: sum_list_scaled add_divide_distrib [symmetric])
      moreover have "real (nat k) = of_int k" using k1 by simp
      ultimately show ?thesis by (simp add: lck mult.assoc)
    qed
    ultimately show ?thesis using g tw True by simp
  qed
qed

theorem total_width_within_budget_witness:
  "2 \<le> length [1, 1 :: real] \<and> list_all (\<lambda>r. 0 < r) [1, 1 :: real] \<and> (0::real) < 10
   \<and> (\<exists>w. totalWidth (replicate 5 \<lparr>marginRight = Num (1 / 10), paddingLeft = Num (1 / 10)\<rparr>) = Num w
          \<and> w \<le> 1)"
proof -
  have l: "2 \<le> length [1, 1 :: real]" by simp
  have p: "list_all (\<lambda>r. 0 < r) [1, 1 :: real]" by simp
  have b: "(0::real) < 10" by simp
  have g: "js_gt (loopCount (map Num [1, 1]) (Num 10)) (Num 1)"
    by (simp add: loopCount_1_1 js_gt_def)
  from total_width_within_budget[OF l p b] g obtain segs w where
    "generateTooltipDashSegments (map Num [1, 1]) (Num 10) = Some segs"
    and "totalWidth segs = Num w" and "w \<le> 1"
    by auto
  then have "totalWidth (replicate 5 \<lparr>marginRight = Num (1 / 10), paddingLeft = Num (1 / 10)\<rparr>) = Num w
      \<and> w \<le> 1"
    by (simp add: segments_1_1)
  with l p b show ?thesis by blast
qed

text \<open>
  Claim C6 (what the code does on it). The claim says that the rendered width never
  exceeds the one em of the budget. For the pattern \<open>[100, 1, 1]\<close>, of odd length, and
  the budget 1020, \<open>loopCount\<close> is \<open>1020 / 102 = 10\<close> and the tile branch is taken; each
  of the ten repetitions emits the blocks \<open>100, 1\<close> and \<open>1, 100\<close> (the last gap wraps
  to the first element), 202/1020 em, and the twenty blocks are 2020/1020 em wide
  together, almost twice the budget.
\<close>

theorem odd_pattern_overflows:
  "js_gt (loopCount [Num 100, Num 1, Num 1] (Num 1020)) (Num 1)
   \<and> loopCount [Num 100, Num 1, Num 1] (Num 1020) = Num 10
   \<and> generateTooltipDashSegments [Num 100, Num 1, Num 1] (Num 1020) =
       Some (concat (replicate 10
         [\<lparr>marginRight = Num (1 / 1020), paddingLeft = Num (100 / 1020)\<rparr>,
          \<lparr>marginRight = Num (100 / 1020), paddingLeft = Num (1 / 1020)\<rparr>]))
   \<and> totalWidth (concat (replicate 10
         [\<lparr>marginRight = Num (1 / 1020), paddingLeft = Num (100 / 1020)\<rparr>,
          \<lparr>marginRight = Num (100 / 1020), paddingLeft = Num (1 / 1020)\<rparr>])) = Num (2020 / 1020)"
proof -
  have p: "totalWidth [\<lparr>marginRight = Num (1 / 1020), paddingLeft = Num (100 / 1020)\<rparr>,
          \<lparr>marginRight = Num (100 / 1020), paddingLeft = Num (1 / 1020)\<rparr>] = Num (202 / 1020)"
    by simp
  have "totalWidth (concat (replicate 10
         [\<lparr>marginRight = Num (1 / 1020), paddingLeft = Num (100 / 1020)\<rparr>,
          \<lparr>marginRight = Num (100 / 1020), paddingLeft = Num (1 / 1020)\<rparr>])) =
        Num (real 10 * (202 / 1020))"
    by (rule totalWidth_replicate[OF p])
  then show ?thesis
    by (simp add: loopCount_100_1_1 js_gt_def segments_100_1_1)
qed

text \<open>
  Claim C7 (as the code has it). For a pattern \<open>[a, b]\<close> of two numbers with
  \<open>a + b \<noteq> 0\<close> and a budget with which \<open>loopCount > 1\<close>, \<open>generateTooltipDashHTML\<close>
  returns the markup of \<open>loopCount\<close> blocks of \<open>a / budget\<close> and \<open>b / budget\<close> em, and
  the sum of all emitted em values times the budget is \<open>loopCount\<close> times \<open>a + b\<close>.
\<close>

theorem tiling_total_width:
  assumes ab: "a + b \<noteq> 0"
    and gt: "js_gt (loopCount [Num a, Num b] (Num B)) (Num 1)"
  shows "generateTooltipDashHTML numToString (Some [Num a, Num b]) col (Num B) =
      Some (concat (map (segmentHTML numToString col)
        (replicate (nat \<lfloor>B / (a + b)\<rfloor>)
           \<lparr>marginRight = Num (b / B), paddingLeft = Num (a / B)\<rparr>)))
    \<and> loopCount [Num a, Num b] (Num B) = Num (real (nat \<lfloor>B / (a + b)\<rfloor>))
    \<and> js_mul (totalWidth (replicate (nat \<lfloor>B / (a + b)\<rfloor>)
                 \<lparr>marginRight = Num (b / B), paddingLeft = Num (a / B)\<rparr>)) (Num B) =
      js_mul (loopCount [Num a, Num b] (Num B)) (Num (a + b))"
proof -
  note lc = loopCount_pair[OF ab, of B]
  note B0 = segments_pair_tile(1)[OF ab gt]
  note k1 = segments_pair_tile(2)[OF ab gt]
  have r: "real (nat \<lfloor>B / (a + b)\<rfloor>) = of_int \<lfloor>B / (a + b)\<rfloor>" using k1 by simp
  have h: "generateTooltipDashHTML numToString (Some [Num a, Num b]) col (Num B) =
      Some (concat (map (segmentHTML numToString col)
        (replicate (nat \<lfloor>B / (a + b)\<rfloor>)
           \<lparr>marginRight = Num (b / B), paddingLeft = Num (a / B)\<rparr>)))"
    using html_pair_tile[OF ab gt] by simp
  have "js_mul (totalWidth (replicate (nat \<lfloor>B / (a + b)\<rfloor>)
                 \<lparr>marginRight = Num (b / B), paddingLeft = Num (a / B)\<rparr>)) (Num B) =
      js_mul (loopCount [Num a, Num b] (Num B)) (Num (a + b))"
    using B0 r by (simp add: totalWidth_replicate_single lc add_divide_distrib [symmetric])
  with h lc r show ?thesis by simp
qed

theorem tiling_total_width_witness:
  \<open>(1::real) + 1 \<noteq> 0
   \<and> js_gt (loopCount [Num 1, Num 1] (Num 10)) (Num 1)
   \<and> generateTooltipDashHTML examplePrint (Some [Num 1, Num 1]) ''#f00'' (Num 10) =
       Some (concat (replicate 5
          ''<div style="display: inline-block; position: relative; bottom: .5ex; margin-right: 0.1em; padding-left: 0.1em; height: 1px; border-bottom: 2px solid #f00;"></div>''))
   \<and> js_mul (totalWidth (replicate 5 \<lparr>marginRight = Num (1 / 10), paddingLeft = Num (1 / 10)\<rparr>))
        (Num 10) = js_mul (Num 5) (Num 2)\<close>
proof -
  have a: "(1::real) + 1 \<noteq> 0" by simp
  have g: "js_gt (loopCount [Num 1, Num 1] (Num 10)) (Num 1)"
    by (simp add: loopCount_1_1 js_gt_def)
  have f: "nat \<lfloor>(10::real) / (1 + 1)\<rfloor> = 5" by simp
  from tiling_total_width[OF a g, of examplePrint "''#f00''"] show ?thesis
    unfolding f using g by (simp add: loopCount_1_1 segmentHTML_def examplePrint_def)
qed

text \<open>
  Claim C7 as stated fails: for the pattern \<open>[1, 1]\<close> and the budget 10 the markup
  holds five blocks of 0.1em and 0.1em, 1em together, and 1 divided by the budget is
  1/10, not the \<open>loopCount\<close> 5.
\<close>

theorem tiling_sum_over_budget_counterexample:
  \<open>js_gt (loopCount [Num 1, Num 1] (Num 10)) (Num 1)
   \<and> loopCount [Num 1, Num 1] (Num 10) = Num 5
   \<and> generateTooltipDashHTML examplePrint (Some [Num 1, Num 1]) ''#f00'' (Num 10) =
       Some (concat (map (segmentHTML examplePrint ''#f00'')
         (replicate 5 \<lparr>marginRight = Num (1 / 10), paddingLeft = Num (1 / 10)\<rparr>)))
   \<and> js_div (totalWidth (replicate 5 \<lparr>marginRight = Num (1 / 10), paddingLeft = Num (1 / 10)\<rparr>))
        (Num 10) = Num (1 / 10)\<close>
proof -
  have l: "2 \<le> length [Num 1, Num 1]" by simp
  from html_of_segments[OF l segments_1_1] show ?thesis
    by (simp add: loopCount_1_1 js_gt_def totalWidth_replicate_single)
qed

text \<open>
  Claim C5. A pattern that is absent, empty or of one element gives exactly one swatch
  element: the single block with left padding 1em and a 2px solid bottom border in the
  given colour. The call returns, and its result does not depend on \<open>oneEmWidth\<close>.
\<close>

theorem solid_line_single_swatch:
  \<open>generateTooltipDashHTML numToString None col oneEmWidth =
     Some (''<div style="display: inline-block; position: relative; bottom: .5ex; padding-left: 1em; height: 1px; border-bottom: 2px solid '' @ col @ '';"></div>'')
   \<and> generateTooltipDashHTML numToString (Some []) col oneEmWidth =
     generateTooltipDashHTML numToString None col oneEmWidth
   \<and> generateTooltipDashHTML numToString (Some [x]) col oneEmWidth =
     generateTooltipDashHTML numToString None col oneEmWidth\<close>
  by (simp add: generateTooltipDashHTML_def solidHTML_def)

theorem solid_line_single_swatch_witness:
  \<open>generateTooltipDashHTML (\<lambda>n. ''?'') (Some [Num 7]) ''#00f'' (Num 10) =
     Some (''<div style="display: inline-block; position: relative; bottom: .5ex; padding-left: 1em; height: 1px; border-bottom: 2px solid #00f;"></div>'')\<close>
  using solid_line_single_swatch [of "\<lambda>n. ''?''" "''#00f''" "Num 10" "Num 7"] by simp

section \<open>Properties of the legend markup\<close>

subsection \<open>Escaping\<close>

lemma replaceAll_Nil: "replaceAll c r [] = []"
  by (simp add: replaceAll_def)

lemma replaceAll_Cons:
  "replaceAll c r (d # str) = (if d = c then r else [d]) @ replaceAll c r str"
  by (simp add: replaceAll_def)

lemma replaceAll_append: "replaceAll c r (a @ b) = replaceAll c r a @ replaceAll c r b"
  by (simp add: replaceAll_def)

text \<open>
  The four replacements one after the other escape every character once: \<open>&\<close> is
  replaced first, so the \<open>&\<close> of an entity is not escaped again.
\<close>

lemma escapeHTML_chars: "escapeHTML str = concat (map escapeChar str)"
proof (induction str)
  case Nil
  then show ?case by (simp add: escapeHTML_def replaceAll_Nil)
next
  case (Cons d str)
  have "escapeHTML (d # str) = escapeChar d @ escapeHTML str"
    by (simp add: escapeHTML_def replaceAll_Cons replaceAll_append escapeChar_def
        replaceAll_Nil)
  with Cons show ?case by simp
qed

lemma escapeChar_clean:
  "CHR ''<'' \<notin> set (escapeChar c) \<and> CHR ''>'' \<notin> set (escapeChar c)
   \<and> CHR 0x22 \<notin> set (escapeChar c)"
  by (simp add: escapeChar_def)

lemma escapeHTML_clean:
  "CHR ''<'' \<notin> set (escapeHTML str) \<and> CHR ''>'' \<notin> set (escapeHTML str)
   \<and> CHR 0x22 \<notin> set (escapeHTML str)"
  using escapeChar_clean by (simp add: escapeHTML_chars)

subsection \<open>The loop over the selected points\<close>

lemma pointLine_valid: "axisValid g pt \<Longrightarrow> pointLine g row pt = Inr (lineText g row pt)"
  by (simp add: pointLine_def axisValid_def lineText_def Let_def escapeHTML_chars)

lemma selectedLines_skip:
  "\<not> shown isOK g pt \<Longrightarrow>
     selectedLines isOK g row (ps @ pt # qs) html = selectedLines isOK g row (ps @ qs) html"
  by (induction ps arbitrary: html) (auto simp: shown_def split: sum.splits)

lemma selectedLines_valid:
  "list_all (axisValid g) pts \<Longrightarrow>
     selectedLines isOK g row pts html =
       Inr (html @ concat (map (lineText g row) (filter (shown isOK g) pts)))"
  by (induction pts arbitrary: html) (auto simp: shown_def pointLine_valid)

lemma generate_selected:
  assumes "showLabelsOnHighlight g"
  shows "generateTooltipHTML numToString isOK g (Some xv) pts w row =
     Some (selectedLines isOK g row pts (xHeader g xv row))"
  using assms by (simp add: generateTooltipHTML_def xHeader_def Let_def)

lemma generate_skip:
  assumes "\<not> shown isOK g pt"
  shows "generateTooltipHTML numToString isOK g x (ps @ pt # qs) w row =
         generateTooltipHTML numToString isOK g x (ps @ qs) w row"
  using selectedLines_skip[OF assms]
  by (simp add: generateTooltipHTML_def Let_def split: option.splits)

lemma generate_selected_valid:
  assumes "showLabelsOnHighlight g" and "list_all (axisValid g) pts"
  shows "generateTooltipHTML numToString isOK g (Some xv) pts w row =
     Some (Inr (xHeader g xv row @
                concat (map (lineText g row) (filter (shown isOK g) pts))))"
  using assms by (simp add: generate_selected selectedLines_valid)

subsection \<open>The loop over the labels\<close>

lemma defaultLegend_entries:
  assumes "list_all (\<lambda>l. generateTooltipDashHTML numToString (strokePatternOf g l)
              (color (getPropertiesForSeries g l)) w \<noteq> None)
            (filter (\<lambda>l. visible (getPropertiesForSeries g l)) ls)"
  shows "defaultLegend numToString g w ls html =
     Some (joinEntries html
       (map (\<lambda>l. labelEntry g l
                (the (generateTooltipDashHTML numToString (strokePatternOf g l)
                   (color (getPropertiesForSeries g l)) w)))
          (filter (\<lambda>l. visible (getPropertiesForSeries g l)) ls)))"
  using assms
  by (induction ls arbitrary: html)
     (auto simp: Let_def labelEntry_def escapeHTML_chars split: option.splits)

subsection \<open>The example graph\<close>

lemma example_axisValid: "axisValid exampleGraph (examplePoint v cy)"
  by (simp add: axisValid_def exampleGraph_def examplePoint_def)

lemma example_header: "xHeader exampleGraph xv row = ''7:''"
  by (simp add: xHeader_def exampleGraph_def)

lemma example_line:
  \<open>lineText exampleGraph row (examplePoint v cy) =
     ''<br/><span> <b><span style='color: red;'>A&lt;B</span></b>:&#160;<i>5</i></span>''\<close>
  by (simp add: lineText_def exampleGraph_def examplePoint_def escapeChar_def)

lemma example_generate_shown:
  assumes "shown isOK exampleGraph (examplePoint v cy)"
  shows \<open>generateTooltipHTML numToString isOK exampleGraph (Some xv) [examplePoint v cy] w row =
     Some (Inr ''7:<br/><span> <b><span style='color: red;'>A&lt;B</span></b>:&#160;<i>5</i></span>'')\<close>
proof -
  have s: "showLabelsOnHighlight exampleGraph" by (simp add: exampleGraph_def)
  have v: "list_all (axisValid exampleGraph) [examplePoint v cy]"
    by (simp add: example_axisValid)
  show ?thesis
    unfolding generate_selected_valid[OF s v] using assms
    by (simp add: example_header example_line)
qed

lemma example_generate_empty:
  "generateTooltipHTML numToString isOK exampleGraph (Some xv) [] w row = Some (Inr ''7:'')"
proof -
  have s: "showLabelsOnHighlight exampleGraph" by (simp add: exampleGraph_def)
  show ?thesis
    unfolding generate_selected_valid[OF s, of "[]", simplified] 
    by (simp add: example_header)
qed

subsection \<open>The claims about the legend markup\<close>

text \<open>
  Claim C10. A selected point whose \<open>canvasy\<close> fails \<open>Dygraph.isOK\<close> gets no legend
  line: the fragment is the one generated without that point, whatever
  \<open>labelsShowZeroValues\<close> and the point's \<open>yval\<close> are.
\<close>

theorem invalid_canvasy_no_line:
  assumes "\<not> isOK (canvasy pt)"
  shows "generateTooltipHTML numToString isOK g x (ps @ pt # qs) w row =
         generateTooltipHTML numToString isOK g x (ps @ qs) w row"
  using assms by (intro generate_skip) (simp add: shown_def)

theorem invalid_canvasy_no_line_witness:
  "\<not> exampleIsOK (canvasy (examplePoint (Num 5) NaN))
   \<and> labelsShowZeroValues exampleGraph
   \<and> yval (examplePoint (Num 5) NaN) \<noteq> Num 0
   \<and> generateTooltipHTML (\<lambda>v. ''?'') exampleIsOK exampleGraph (Some (Num 7))
        [examplePoint (Num 5) NaN] (Num 10) None = Some (Inr ''7:'')"
proof -
  have h: "\<not> exampleIsOK (canvasy (examplePoint (Num 5) NaN))"
    by (simp add: exampleIsOK_def examplePoint_def)
  from invalid_canvasy_no_line[where isOK = exampleIsOK and pt = "examplePoint (Num 5) NaN"
      and numToString = "\<lambda>v. ''?''" and g = exampleGraph and x = "Some (Num 7)"
      and ps = "[]" and qs = "[]" and w = "Num 10" and row = None, OF h]
  have "generateTooltipHTML (\<lambda>v. ''?'') exampleIsOK exampleGraph (Some (Num 7))
        [examplePoint (Num 5) NaN] (Num 10) None = Some (Inr ''7:'')"
    by (simp add: example_generate_empty)
  with h show ?thesis by (simp add: exampleGraph_def examplePoint_def)
qed

text \<open>
  Claim C8 (as the code has it). With \<open>labelsShowZeroValues\<close> off, a selected point
  whose \<open>yval\<close> is 0 gets no legend line: the fragment is the one generated without
  it. With \<open>labelsShowZeroValues\<close> on, such a point gets its legend line, between the
  lines of the points before and after it, provided that its \<open>canvasy\<close> passes
  \<open>Dygraph.isOK\<close> (and that the legend is generated at all: \<open>showLabelsOnHighlight\<close>
  is on and the series' axes exist).
\<close>

theorem zero_value_lines:
  "(\<not> labelsShowZeroValues g \<longrightarrow> yval pt = Num 0 \<longrightarrow>
      generateTooltipHTML numToString isOK g x (ps @ pt # qs) w row =
      generateTooltipHTML numToString isOK g x (ps @ qs) w row)
   \<and> (labelsShowZeroValues g \<longrightarrow> yval pt = Num 0 \<longrightarrow> isOK (canvasy pt) \<longrightarrow>
      showLabelsOnHighlight g \<longrightarrow> list_all (axisValid g) (ps @ pt # qs) \<longrightarrow>
        generateTooltipHTML numToString isOK g (Some xv) (ps @ pt # qs) w row =
          Some (Inr (xHeader g xv row
                     @ concat (map (lineText g row) (filter (shown isOK g) ps))
                     @ lineText g row pt
                     @ concat (map (lineText g row) (filter (shown isOK g) qs))))
        \<and> generateTooltipHTML numToString isOK g (Some xv) (ps @ qs) w row =
          Some (Inr (xHeader g xv row
                     @ concat (map (lineText g row) (filter (shown isOK g) ps))
                     @ concat (map (lineText g row) (filter (shown isOK g) qs)))))"
proof (intro conjI impI)
  assume "\<not> labelsShowZeroValues g" and "yval pt = Num 0"
  then have "\<not> shown isOK g pt" by (simp add: shown_def)
  then show "generateTooltipHTML numToString isOK g x (ps @ pt # qs) w row =
      generateTooltipHTML numToString isOK g x (ps @ qs) w row"
    by (rule generate_skip)
next
  assume z: "labelsShowZeroValues g" and ok: "isOK (canvasy pt)"
    and s: "showLabelsOnHighlight g" and v: "list_all (axisValid g) (ps @ pt # qs)"
  have sh: "shown isOK g pt" using z ok by (simp add: shown_def)
  show "generateTooltipHTML numToString isOK g (Some xv) (ps @ pt # qs) w row =
          Some (Inr (xHeader g xv row
                     @ concat (map (lineText g row) (filter (shown isOK g) ps))
                     @ lineText g row pt
                     @ concat (map (lineText g row) (filter (shown isOK g) qs))))"
    unfolding generate_selected_valid[OF s v] using sh by simp
  have v': "list_all (axisValid g) (ps @ qs)" using v by simp
  show "generateTooltipHTML numToString isOK g (Some xv) (ps @ qs) w row =
          Some (Inr (xHeader g xv row
                     @ concat (map (lineText g row) (filter (shown isOK g) ps))
                     @ concat (map (lineText g row) (filter (shown isOK g) qs))))"
    unfolding generate_selected_valid[OF s v'] by simp
qed

theorem zero_value_lines_witness:
  \<open>labelsShowZeroValues exampleGraph \<and> yval (examplePoint (Num 0) (Num 3)) = Num 0
   \<and> exampleIsOK (canvasy (examplePoint (Num 0) (Num 3)))
   \<and> generateTooltipHTML (\<lambda>v. ''?'') exampleIsOK exampleGraph (Some (Num 7))
        [examplePoint (Num 0) (Num 3)] (Num 10) None =
      Some (Inr ''7:<br/><span> <b><span style='color: red;'>A&lt;B</span></b>:&#160;<i>5</i></span>'')
   \<and> \<not> labelsShowZeroValues (exampleGraph\<lparr>labelsShowZeroValues := False\<rparr>)
   \<and> generateTooltipHTML (\<lambda>v. ''?'') exampleIsOK (exampleGraph\<lparr>labelsShowZeroValues := False\<rparr>)
        (Some (Num 7)) [examplePoint (Num 0) (Num 3)] (Num 10) None =
      generateTooltipHTML (\<lambda>v. ''?'') exampleIsOK (exampleGraph\<lparr>labelsShowZeroValues := False\<rparr>)
        (Some (Num 7)) [] (Num 10) None\<close>
proof -
  have z: "labelsShowZeroValues exampleGraph" by (simp add: exampleGraph_def)
  have y: "yval (examplePoint (Num 0) (Num 3)) = Num 0" by (simp add: examplePoint_def)
  have ok: "exampleIsOK (canvasy (examplePoint (Num 0) (Num 3)))"
    by (simp add: exampleIsOK_def examplePoint_def)
  have s: "showLabelsOnHighlight exampleGraph" by (simp add: exampleGraph_def)
  have v: "list_all (axisValid exampleGraph) ([] @ examplePoint (Num 0) (Num 3) # [])"
    by (simp add: example_axisValid)
  have nz: "\<not> labelsShowZeroValues (exampleGraph\<lparr>labelsShowZeroValues := False\<rparr>)" by simp
  from zero_value_lines[of exampleGraph "examplePoint (Num 0) (Num 3)" "\<lambda>v. ''?''" exampleIsOK
      "Some (Num 7)" "[]" "[]" "Num 10" None "Num 7"] z y ok s v
  have a: \<open>generateTooltipHTML (\<lambda>v. ''?'') exampleIsOK exampleGraph (Some (Num 7))
        [examplePoint (Num 0) (Num 3)] (Num 10) None =
      Some (Inr ''7:<br/><span> <b><span style='color: red;'>A&lt;B</span></b>:&#160;<i>5</i></span>'')\<close>
    by (simp add: example_header example_line)
  from zero_value_lines[of "exampleGraph\<lparr>labelsShowZeroValues := False\<rparr>"
      "examplePoint (Num 0) (Num 3)" "\<lambda>v. ''?''" exampleIsOK
      "Some (Num 7)" "[]" "[]" "Num 10" None "Num 7"] nz y
  have b: "generateTooltipHTML (\<lambda>v. ''?'') exampleIsOK (exampleGraph\<lparr>labelsShowZeroValues := False\<rparr>)
        (Some (Num 7)) [examplePoint (Num 0) (Num 3)] (Num 10) None =
      generateTooltipHTML (\<lambda>v. ''?'') exampleIsOK (exampleGraph\<lparr>labelsShowZeroValues := False\<rparr>)
        (Some (Num 7)) [] (Num 10) None"
    by simp
  from z y ok a nz b show ?thesis by simp
qed

text \<open>
  Claim C8 as stated fails in its second half: with \<open>labelsShowZeroValues\<close> on, a
  point with the \<open>yval\<close> 0 and the \<open>canvasy\<close> NaN gets no line; the fragment is the
  one of an empty selection.
\<close>

theorem zero_shown_needs_canvasy_counterexample:
  "labelsShowZeroValues exampleGraph
   \<and> showLabelsOnHighlight exampleGraph
   \<and> yval (examplePoint (Num 0) NaN) = Num 0
   \<and> generateTooltipHTML (\<lambda>v. ''?'') exampleIsOK exampleGraph (Some (Num 7))
        [examplePoint (Num 0) NaN] (Num 10) None = Some (Inr ''7:'')
   \<and> generateTooltipHTML (\<lambda>v. ''?'') exampleIsOK exampleGraph (Some (Num 7))
        [] (Num 10) None = Some (Inr ''7:'')"
proof -
  have "\<not> shown exampleIsOK exampleGraph (examplePoint (Num 0) NaN)"
    by (simp add: shown_def exampleIsOK_def examplePoint_def)
  from generate_skip[where numToString = "\<lambda>v. ''?''" and x = "Some (Num 7)"
      and ps = "[]" and qs = "[]" and w = "Num 10" and row = None, OF this]
  show ?thesis
    by (simp add: example_generate_empty) (simp add: exampleGraph_def examplePoint_def)
qed

text \<open>
  Claim C2 (as the code has it). \<open>escapeHTML\<close> replaces each of \<open>&\<close>, \<open>"\<close>,
  \<open><\<close>, \<open>>\<close> by its entity, once, and its result holds none of \<open>"\<close>, \<open><\<close>,
  \<open>>\<close>. In the fragment of a selection every point's name stands escaped
  (\<open>lineText\<close>), while the texts returned by the x and y value formatters stand as
  they are; in the fragment without a selection every label stands escaped
  (\<open>labelEntry\<close>).
\<close>

theorem names_escaped_values_verbatim:
  "escapeHTML s = concat (map escapeChar s)
   \<and> CHR ''<'' \<notin> set (escapeHTML s) \<and> CHR ''>'' \<notin> set (escapeHTML s)
   \<and> CHR 0x22 \<notin> set (escapeHTML s)
   \<and> (showLabelsOnHighlight g \<longrightarrow> list_all (axisValid g) pts \<longrightarrow>
        generateTooltipHTML numToString isOK g (Some xv) pts w row =
          Some (Inr (xHeader g xv row @
                     concat (map (lineText g row) (filter (shown isOK g) pts)))))
   \<and> (showLabelsOnHighlight g \<longrightarrow>
        list_all (\<lambda>l. generateTooltipDashHTML numToString (strokePatternOf g l)
                    (color (getPropertiesForSeries g l)) w \<noteq> None)
          (filter (\<lambda>l. visible (getPropertiesForSeries g l)) (tl (getLabels g))) \<longrightarrow>
        generateTooltipHTML numToString isOK g None pts w row =
          Some (Inr (joinEntries []
            (map (\<lambda>l. labelEntry g l
                     (the (generateTooltipDashHTML numToString (strokePatternOf g l)
                        (color (getPropertiesForSeries g l)) w)))
               (filter (\<lambda>l. visible (getPropertiesForSeries g l)) (tl (getLabels g)))))))"
proof (intro conjI impI)
  show "escapeHTML s = concat (map escapeChar s)" by (rule escapeHTML_chars)
  show "CHR ''<'' \<notin> set (escapeHTML s)" using escapeHTML_clean by blast
  show "CHR ''>'' \<notin> set (escapeHTML s)" using escapeHTML_clean by blast
  show "CHR 0x22 \<notin> set (escapeHTML s)" using escapeHTML_clean by blast
next
  assume "showLabelsOnHighlight g" and "list_all (axisValid g) pts"
  then show "generateTooltipHTML numToString isOK g (Some xv) pts w row =
          Some (Inr (xHeader g xv row @
                     concat (map (lineText g row) (filter (shown isOK g) pts))))"
    by (rule generate_selected_valid)
next
  assume s: "showLabelsOnHighlight g"
    and d: "list_all (\<lambda>l. generateTooltipDashHTML numToString (strokePatternOf g l)
                    (color (getPropertiesForSeries g l)) w \<noteq> None)
          (filter (\<lambda>l. visible (getPropertiesForSeries g l)) (tl (getLabels g)))"
  show "generateTooltipHTML numToString isOK g None pts w row =
          Some (Inr (joinEntries []
            (map (\<lambda>l. labelEntry g l
                     (the (generateTooltipDashHTML numToString (strokePatternOf g l)
                        (color (getPropertiesForSeries g l)) w)))
               (filter (\<lambda>l. visible (getPropertiesForSeries g l)) (tl (getLabels g))))))"
    using s by (simp add: generateTooltipHTML_def defaultLegend_entries[OF d])
qed

theorem names_escaped_values_verbatim_witness:
  \<open>escapeHTML ''A<B'' = ''A&lt;B''
   \<and> showLabelsOnHighlight exampleGraph
   \<and> list_all (axisValid exampleGraph) [examplePoint (Num 5) (Num 3)]
   \<and> generateTooltipHTML (\<lambda>v. ''?'') exampleIsOK exampleGraph (Some (Num 7))
        [examplePoint (Num 5) (Num 3)] (Num 10) None =
      Some (Inr (''7:<br/><span> <b><span style='color: red;'>'' @ escapeHTML ''A<B'' @
                 ''</span></b>:&#160;<i>5</i></span>''))\<close>
proof -
  have s: "showLabelsOnHighlight exampleGraph" by (simp add: exampleGraph_def)
  have v: "list_all (axisValid exampleGraph) [examplePoint (Num 5) (Num 3)]"
    by (simp add: example_axisValid)
  have sh: "shown exampleIsOK exampleGraph (examplePoint (Num 5) (Num 3))"
    by (simp add: shown_def exampleIsOK_def examplePoint_def)
  note t = names_escaped_values_verbatim[of "''A<B''" exampleGraph "[examplePoint (Num 5) (Num 3)]"
      "\<lambda>v. ''?''" exampleIsOK "Num 7" "Num 10" None]
  from t have e: "escapeHTML ''A<B'' = ''A&lt;B''" by (simp add: escapeChar_def)
  from t s v sh have "generateTooltipHTML (\<lambda>v. ''?'') exampleIsOK exampleGraph (Some (Num 7))
        [examplePoint (Num 5) (Num 3)] (Num 10) None =
      Some (Inr (''7:'' @ lineText exampleGraph None (examplePoint (Num 5) (Num 3))))"
    by (simp add: example_header)
  with e s v show ?thesis by (simp add: example_line)
qed

text \<open>
  Claim C2 as stated fails for the formatted text: a y value formatter that returns
  \<open><i>5</i>\<close> has it inserted as it is, not as \<open>&lt;i&gt;5&lt;/i&gt;\<close>.
\<close>

theorem formatted_value_unescaped_counterexample:
  \<open>yValueFormatter exampleGraph 0 (Num 5) ''A<B'' None 1 = ''<i>5</i>''
   \<and> escapeHTML ''<i>5</i>'' = ''&lt;i&gt;5&lt;/i&gt;''
   \<and> generateTooltipHTML (\<lambda>v. ''?'') exampleIsOK exampleGraph (Some (Num 7))
        [examplePoint (Num 5) (Num 3)] (Num 10) None =
      Some (Inr ''7:<br/><span> <b><span style='color: red;'>A&lt;B</span></b>:&#160;<i>5</i></span>'')\<close>
proof -
  have "shown exampleIsOK exampleGraph (examplePoint (Num 5) (Num 3))"
    by (simp add: shown_def exampleIsOK_def examplePoint_def)
  from example_generate_shown[OF this] show ?thesis
    by (simp add: exampleGraph_def escapeHTML_chars escapeChar_def)
qed

section \<open>Properties of the handlers\<close>

lemma dashed_legend:
  assumes "js_gt (loopCount [Num 1, Num 1] (Num B)) (Num 1)"
  shows "generateTooltipHTML numToString isOK dashedGraph None pts (Num B) row =
     Some (Inr (labelEntry dashedGraph ''A<B''
                  (concat (replicate (nat \<lfloor>B / 2\<rfloor>)
                     (segmentHTML numToString ''red''
                        \<lparr>marginRight = Num (1 / B), paddingLeft = Num (1 / B)\<rparr>)))
                @ ''<br/>'' @
                labelEntry dashedGraph ''C''
                  (concat (replicate (nat \<lfloor>B / 2\<rfloor>)
                     (segmentHTML numToString ''red''
                        \<lparr>marginRight = Num (1 / B), paddingLeft = Num (1 / B)\<rparr>)))))"
proof -
  have a: "(1::real) + 1 \<noteq> 0" by simp
  have d: "generateTooltipDashHTML numToString (Some [Num 1, Num 1]) ''red'' (Num B) =
      Some (concat (replicate (nat \<lfloor>B / 2\<rfloor>)
        (segmentHTML numToString ''red''
           \<lparr>marginRight = Num (1 / B), paddingLeft = Num (1 / B)\<rparr>)))"
    using html_pair_tile[OF a assms, of numToString "''red''"] by simp
  show ?thesis
    by (simp add: generateTooltipHTML_def dashedGraph_def exampleGraph_def d labelEntry_def
        escapeHTML_chars)
qed

text \<open>
  Claim C9. \<open>select\<close> leaves \<open>one_em_width_\<close> as it is, however it stops. Unless the
  tooltip is never shown, it positions the \<open>div\<close> and then writes the fragment that
  \<open>generateTooltipHTML\<close> returns for the cached width, and returns; with a selection
  it always returns or throws. \<open>deselect\<close> (and \<open>didDrawChart\<close>, which calls it) stores
  the width measured by \<open>calculateEmWidthInDiv\<close>, however it stops, writes the fragment
  generated with that width and returns; it fails to return only when the generator
  does. \<open>predraw\<close> leaves the field as it is.
\<close>

theorem select_keeps_cached_em_width:
  "one_em_width (fst (select b e t)) = one_em_width t
   \<and> (tooltipMode (dygraph e) \<noteq> ''never'' \<longrightarrow>
        (if tooltipMode (dygraph e) = ''follow''
         then followPosition b (dygraph e) (selectedPoints e) (tooltip_div t)
         else Inr (tooltip_div t)) = Inr d \<longrightarrow>
        generateTooltipHTML (numberToString b) (dygraphIsOK b) (dygraph e) (selectedX e)
          (selectedPoints e) (one_em_width t) (selectedRow e) = Some (Inr html) \<longrightarrow>
        select b e t =
          (t\<lparr>tooltip_div := d\<lparr>innerHTML := html, style_display := []\<rparr>\<rparr>, Some (Inr ())))
   \<and> (selectedX e \<noteq> None \<longrightarrow> snd (select b e t) \<noteq> None)
   \<and> one_em_width (fst (deselect b e t)) = calculateEmWidthInDiv b (tooltip_div t)
   \<and> (generateTooltipHTML (numberToString b) (dygraphIsOK b) (dygraph e) None []
          (calculateEmWidthInDiv b (tooltip_div t)) None = Some (Inr html) \<longrightarrow>
        deselect b e t =
          (t\<lparr>one_em_width := calculateEmWidthInDiv b (tooltip_div t),
             tooltip_div := (tooltip_div t)\<lparr>innerHTML := html\<rparr>\<rparr>, Some (Inr ())))
   \<and> (snd (deselect b e t) = None) =
       (generateTooltipHTML (numberToString b) (dygraphIsOK b) (dygraph e) None []
          (calculateEmWidthInDiv b (tooltip_div t)) None = None)
   \<and> didDrawChart b e t = deselect b e t
   \<and> one_em_width (predraw b e t) = one_em_width t"
proof (intro conjI impI)
  show "one_em_width (fst (select b e t)) = one_em_width t"
    by (simp add: select_def Let_def split: sum.splits option.splits)
next
  assume "tooltipMode (dygraph e) \<noteq> ''never''"
    and "(if tooltipMode (dygraph e) = ''follow''
         then followPosition b (dygraph e) (selectedPoints e) (tooltip_div t)
         else Inr (tooltip_div t)) = Inr d"
    and "generateTooltipHTML (numberToString b) (dygraphIsOK b) (dygraph e) (selectedX e)
          (selectedPoints e) (one_em_width t) (selectedRow e) = Some (Inr html)"
  then show "select b e t =
          (t\<lparr>tooltip_div := d\<lparr>innerHTML := html, style_display := []\<rparr>\<rparr>, Some (Inr ()))"
    by (simp add: select_def Let_def)
next
  assume "selectedX e \<noteq> None"
  then obtain xv where "selectedX e = Some xv" by auto
  then have "generateTooltipHTML (numberToString b) (dygraphIsOK b) (dygraph e) (selectedX e)
          (selectedPoints e) (one_em_width t) (selectedRow e) \<noteq> None"
    by (simp add: generateTooltipHTML_def Let_def)
  then show "snd (select b e t) \<noteq> None"
    by (auto simp: select_def Let_def split: sum.splits option.splits)
next
  show "one_em_width (fst (deselect b e t)) = calculateEmWidthInDiv b (tooltip_div t)"
    by (simp add: deselect_def Let_def split: sum.splits option.splits)
next
  assume "generateTooltipHTML (numberToString b) (dygraphIsOK b) (dygraph e) None []
          (calculateEmWidthInDiv b (tooltip_div t)) None = Some (Inr html)"
  then show "deselect b e t =
          (t\<lparr>one_em_width := calculateEmWidthInDiv b (tooltip_div t),
             tooltip_div := (tooltip_div t)\<lparr>innerHTML := html\<rparr>\<rparr>, Some (Inr ()))"
    by (simp add: deselect_def Let_def)
next
  show "(snd (deselect b e t) = None) =
       (generateTooltipHTML (numberToString b) (dygraphIsOK b) (dygraph e) None []
          (calculateEmWidthInDiv b (tooltip_div t)) None = None)"
    by (simp add: deselect_def Let_def split: sum.splits option.splits)
next
  show "didDrawChart b e t = deselect b e t" by (simp add: didDrawChart_def)
  show "one_em_width (predraw b e t) = one_em_width t" by (simp add: predraw_def Let_def)
qed

theorem select_keeps_cached_em_width_witness:
  \<open>one_em_width exampleTooltip = Num 10
   \<and> calculateEmWidthInDiv exampleBrowser (tooltip_div exampleTooltip) = Num 14
   \<and> select exampleBrowser exampleEvent exampleTooltip =
       (exampleTooltip\<lparr>tooltip_div := (tooltip_div exampleTooltip)
          \<lparr>innerHTML :=
             ''7:<br/><span> <b><span style='color: red;'>A&lt;B</span></b>:&#160;<i>5</i></span>'',
           style_display := []\<rparr>\<rparr>,
        Some (Inr ()))
   \<and> select exampleBrowser dashedEvent exampleTooltip =
       (exampleTooltip\<lparr>tooltip_div := (tooltip_div exampleTooltip)
          \<lparr>innerHTML :=
             labelEntry dashedGraph ''A<B''
               (concat (replicate 5 (segmentHTML examplePrint ''red''
                  \<lparr>marginRight = Num (1 / 10), paddingLeft = Num (1 / 10)\<rparr>)))
             @ ''<br/>'' @
             labelEntry dashedGraph ''C''
               (concat (replicate 5 (segmentHTML examplePrint ''red''
                  \<lparr>marginRight = Num (1 / 10), paddingLeft = Num (1 / 10)\<rparr>))),
           style_display := []\<rparr>\<rparr>,
        Some (Inr ()))
   \<and> deselect exampleBrowser dashedEvent exampleTooltip =
       (exampleTooltip\<lparr>one_em_width := Num 14,
          tooltip_div := (tooltip_div exampleTooltip)
          \<lparr>innerHTML :=
             labelEntry dashedGraph ''A<B''
               (concat (replicate 7 (segmentHTML examplePrint ''red''
                  \<lparr>marginRight = Num (1 / 14), paddingLeft = Num (1 / 14)\<rparr>)))
             @ ''<br/>'' @
             labelEntry dashedGraph ''C''
               (concat (replicate 7 (segmentHTML examplePrint ''red''
                  \<lparr>marginRight = Num (1 / 14), paddingLeft = Num (1 / 14)\<rparr>)))\<rparr>\<rparr>,
        Some (Inr ()))\<close>
proof -
  have w: "one_em_width exampleTooltip = Num 10" by (simp add: exampleTooltip_def)
  have c: "calculateEmWidthInDiv exampleBrowser (tooltip_div exampleTooltip) = Num 14"
    by (simp add: calculateEmWidthInDiv_def exampleBrowser_def)
  have nb: "numberToString exampleBrowser = examplePrint"
    "dygraphIsOK exampleBrowser = exampleIsOK"
    by (simp_all add: exampleBrowser_def)
  have m1: "tooltipMode (dygraph exampleEvent) \<noteq> ''never''"
    "tooltipMode (dygraph exampleEvent) \<noteq> ''follow''"
    by (simp_all add: exampleEvent_def exampleGraph_def)
  have m2: "tooltipMode (dygraph dashedEvent) \<noteq> ''never''"
    "tooltipMode (dygraph dashedEvent) \<noteq> ''follow''"
    by (simp_all add: dashedEvent_def dashedGraph_def exampleGraph_def)
  have sh: "shown exampleIsOK exampleGraph (examplePoint (Num 5) (Num 3))"
    by (simp add: shown_def exampleIsOK_def examplePoint_def)
  have g1: \<open>generateTooltipHTML (numberToString exampleBrowser) (dygraphIsOK exampleBrowser)
      (dygraph exampleEvent) (selectedX exampleEvent) (selectedPoints exampleEvent)
      (one_em_width exampleTooltip) (selectedRow exampleEvent) =
      Some (Inr ''7:<br/><span> <b><span style='color: red;'>A&lt;B</span></b>:&#160;<i>5</i></span>'')\<close>
    using example_generate_shown[OF sh] by (simp add: exampleEvent_def nb)
  have t10: "js_gt (loopCount [Num 1, Num 1] (Num 10)) (Num 1)"
    by (simp add: loopCount_def strokePixelLength_pair js_sub_def js_gt_def)
  have t14: "js_gt (loopCount [Num 1, Num 1] (Num 14)) (Num 1)"
    by (simp add: loopCount_def strokePixelLength_pair js_sub_def js_gt_def)
  have f10: "nat \<lfloor>(10::real) / 2\<rfloor> = 5" and f14: "nat \<lfloor>(14::real) / 2\<rfloor> = 7" by simp_all
  have g2: "generateTooltipHTML (numberToString exampleBrowser) (dygraphIsOK exampleBrowser)
      (dygraph dashedEvent) (selectedX dashedEvent) (selectedPoints dashedEvent)
      (one_em_width exampleTooltip) (selectedRow dashedEvent) =
      Some (Inr (labelEntry dashedGraph ''A<B''
               (concat (replicate 5 (segmentHTML examplePrint ''red''
                  \<lparr>marginRight = Num (1 / 10), paddingLeft = Num (1 / 10)\<rparr>)))
             @ ''<br/>'' @
             labelEntry dashedGraph ''C''
               (concat (replicate 5 (segmentHTML examplePrint ''red''
                  \<lparr>marginRight = Num (1 / 10), paddingLeft = Num (1 / 10)\<rparr>)))))"
    using dashed_legend[OF t10, of examplePrint exampleIsOK "[]" None] unfolding f10
    by (simp add: dashedEvent_def nb w)
  have g3: "generateTooltipHTML (numberToString exampleBrowser) (dygraphIsOK exampleBrowser)
      (dygraph dashedEvent) None []
      (calculateEmWidthInDiv exampleBrowser (tooltip_div exampleTooltip)) None =
      Some (Inr (labelEntry dashedGraph ''A<B''
               (concat (replicate 7 (segmentHTML examplePrint ''red''
                  \<lparr>marginRight = Num (1 / 14), paddingLeft = Num (1 / 14)\<rparr>)))
             @ ''<br/>'' @
             labelEntry dashedGraph ''C''
               (concat (replicate 7 (segmentHTML examplePrint ''red''
                  \<lparr>marginRight = Num (1 / 14), paddingLeft = Num (1 / 14)\<rparr>)))))"
    using dashed_legend[OF t14, of examplePrint exampleIsOK "[]" None] unfolding f14
    by (simp add: dashedEvent_def nb c)
  have p1: "(if tooltipMode (dygraph exampleEvent) = ''follow''
         then followPosition exampleBrowser (dygraph exampleEvent) (selectedPoints exampleEvent)
                (tooltip_div exampleTooltip)
         else Inr (tooltip_div exampleTooltip)) = Inr (tooltip_div exampleTooltip)"
    using m1 by simp
  have p2: "(if tooltipMode (dygraph dashedEvent) = ''follow''
         then followPosition exampleBrowser (dygraph dashedEvent) (selectedPoints dashedEvent)
                (tooltip_div exampleTooltip)
         else Inr (tooltip_div exampleTooltip)) = Inr (tooltip_div exampleTooltip)"
    using m2 by simp
  from select_keeps_cached_em_width[of exampleBrowser exampleEvent exampleTooltip
      "tooltip_div exampleTooltip"] m1(1) p1 g1
  have s1: \<open>select exampleBrowser exampleEvent exampleTooltip =
       (exampleTooltip\<lparr>tooltip_div := (tooltip_div exampleTooltip)
          \<lparr>innerHTML :=
             ''7:<br/><span> <b><span style='color: red;'>A&lt;B</span></b>:&#160;<i>5</i></span>'',
           style_display := []\<rparr>\<rparr>,
        Some (Inr ()))\<close>
    by blast
  from select_keeps_cached_em_width[of exampleBrowser dashedEvent exampleTooltip
      "tooltip_div exampleTooltip"] m2(1) p2 g2
  have s2: "select exampleBrowser dashedEvent exampleTooltip =
       (exampleTooltip\<lparr>tooltip_div := (tooltip_div exampleTooltip)
          \<lparr>innerHTML :=
             labelEntry dashedGraph ''A<B''
               (concat (replicate 5 (segmentHTML examplePrint ''red''
                  \<lparr>marginRight = Num (1 / 10), paddingLeft = Num (1 / 10)\<rparr>)))
             @ ''<br/>'' @
             labelEntry dashedGraph ''C''
               (concat (replicate 5 (segmentHTML examplePrint ''red''
                  \<lparr>marginRight = Num (1 / 10), paddingLeft = Num (1 / 10)\<rparr>))),
           style_display := []\<rparr>\<rparr>,
        Some (Inr ()))"
    by blast
  from select_keeps_cached_em_width[of exampleBrowser dashedEvent exampleTooltip] g3
  have s3: "deselect exampleBrowser dashedEvent exampleTooltip =
       (exampleTooltip\<lparr>one_em_width := calculateEmWidthInDiv exampleBrowser (tooltip_div exampleTooltip),
          tooltip_div := (tooltip_div exampleTooltip)
          \<lparr>innerHTML :=
             labelEntry dashedGraph ''A<B''
               (concat (replicate 7 (segmentHTML examplePrint ''red''
                  \<lparr>marginRight = Num (1 / 14), paddingLeft = Num (1 / 14)\<rparr>)))
             @ ''<br/>'' @
             labelEntry dashedGraph ''C''
               (concat (replicate 7 (segmentHTML examplePrint ''red''
                  \<lparr>marginRight = Num (1 / 14), paddingLeft = Num (1 / 14)\<rparr>)))\<rparr>\<rparr>,
        Some (Inr ()))"
    by blast
  show ?thesis
    using w c s1 s2 s3 unfolding c by (intro conjI) simp_all
qed

end
